theory Spec2Isabelle
  imports Complex_Main
begin

section \<open>Python values used by the data store\<close>

subsection \<open>Floats\<close>

text \<open>
  A Python \<open>float\<close> is an IEEE 754 binary64 value. A finite value is kept as the
  rational number it denotes; the two infinities and NaN are separate constructors.
  The two zeros are identified (\<open>-0.0 == 0.0\<close> holds in Python, and no division by a
  variable float occurs in the store).
\<close>

datatype pyfloat = Fin rat | PInf | NInf | NaN

definition pow2 :: "int \<Rightarrow> rat" where
  "pow2 e = (if 0 \<le> e then 2 ^ nat e else 1 / 2 ^ nat (- e))"

function bitlen :: "int \<Rightarrow> int" where
  "bitlen i = (if i \<le> 0 then 0 else 1 + bitlen (i div 2))"
  by pat_completeness auto
termination
  by (relation "measure nat") auto

declare bitlen.simps [simp del]

text \<open>\<open>ilog2 a\<close> is the integer part of the binary logarithm of a positive rational.\<close>

definition ilog2 :: "rat \<Rightarrow> int" where
  "ilog2 a = (case quotient_of a of (p, d) \<Rightarrow>
     (let k = bitlen p - bitlen d
      in if pow2 k \<le> a then k else k - 1))"

text \<open>Rounding to the nearest integer, ties to the even neighbour.\<close>

definition rhe :: "rat \<Rightarrow> int" where
  "rhe q = (let f = \<lfloor>q\<rfloor>; d = q - of_int f
            in if d < 1 / 2 then f
               else if 1 / 2 < d then f + 1
               else if even f then f else f + 1)"

text \<open>
  \<open>fl q\<close> is the binary64 value nearest to the rational \<open>q\<close> (round to nearest, ties
  to even): 53 significant bits, least exponent \<open>-1074\<close> (subnormals). With \<open>e\<close> the
  exponent of the last bit, the rounded significand \<open>m\<close> is at most \<open>2 ^ 53\<close>, so the
  rounded magnitude \<open>m * 2 ^ e\<close> reaches \<open>2 ^ 1024\<close>, and overflows to an infinity,
  exactly when \<open>971 < e\<close>, or \<open>e = 971\<close> and \<open>m = 2 ^ 53\<close>.
\<close>

definition fl :: "rat \<Rightarrow> pyfloat" where
  "fl q = (if q = 0 then Fin 0
           else let a = \<bar>q\<bar>;
                    e = max (ilog2 a - 52) (- 1074);
                    m = rhe (a / pow2 e)
                in if 971 < e \<or> (e = 971 \<and> 2 ^ 53 \<le> m)
                   then (if 0 < q then PInf else NInf)
                   else Fin (if 0 < q then of_int m * pow2 e else - (of_int m * pow2 e)))"

text \<open>
  Arithmetic: the exact result, rounded by \<open>fl\<close>; the special values follow IEEE 754
  (\<open>inf - inf\<close>, \<open>0 * inf\<close> and \<open>inf / inf\<close> are NaN).
\<close>

fun fadd :: "pyfloat \<Rightarrow> pyfloat \<Rightarrow> pyfloat" where
  "fadd NaN _ = NaN"
| "fadd _ NaN = NaN"
| "fadd (Fin a) (Fin b) = fl (a + b)"
| "fadd PInf NInf = NaN"
| "fadd NInf PInf = NaN"
| "fadd PInf _ = PInf"
| "fadd NInf _ = NInf"
| "fadd (Fin a) y = y"

fun fneg :: "pyfloat \<Rightarrow> pyfloat" where
  "fneg (Fin a) = Fin (- a)"
| "fneg PInf = NInf"
| "fneg NInf = PInf"
| "fneg NaN = NaN"

fun inf_times :: "pyfloat \<Rightarrow> pyfloat" where
  "inf_times (Fin a) = (if a = 0 then NaN else if 0 < a then PInf else NInf)"
| "inf_times PInf = PInf"
| "inf_times NInf = NInf"
| "inf_times NaN = NaN"

fun fmul :: "pyfloat \<Rightarrow> pyfloat \<Rightarrow> pyfloat" where
  "fmul NaN _ = NaN"
| "fmul _ NaN = NaN"
| "fmul (Fin a) (Fin b) = fl (a * b)"
| "fmul PInf y = inf_times y"
| "fmul NInf y = fneg (inf_times y)"
| "fmul x PInf = inf_times x"
| "fmul x NInf = fneg (inf_times x)"

text \<open>
  \<open>fdiv x y\<close> is \<open>x / y\<close> for a divisor other than zero; Python raises
  \<open>ZeroDivisionError\<close> on a zero divisor, which is checked where a division with a
  variable divisor is made (\<open>int_truediv\<close> below).
\<close>

fun fdiv :: "pyfloat \<Rightarrow> pyfloat \<Rightarrow> pyfloat" where
  "fdiv NaN _ = NaN"
| "fdiv _ NaN = NaN"
| "fdiv (Fin a) (Fin b) = fl (a / b)"
| "fdiv (Fin a) _ = Fin 0"
| "fdiv PInf (Fin b) = (if 0 < b then PInf else NInf)"
| "fdiv NInf (Fin b) = (if 0 < b then NInf else PInf)"
| "fdiv _ _ = NaN"

text \<open>Comparisons: every comparison with NaN is false.\<close>

fun flt :: "pyfloat \<Rightarrow> pyfloat \<Rightarrow> bool" where
  "flt NaN _ = False"
| "flt _ NaN = False"
| "flt (Fin a) (Fin b) = (a < b)"
| "flt _ NInf = False"
| "flt NInf _ = True"
| "flt PInf _ = False"
| "flt (Fin a) PInf = True"

fun fle :: "pyfloat \<Rightarrow> pyfloat \<Rightarrow> bool" where
  "fle NaN _ = False"
| "fle _ NaN = False"
| "fle x y = (x = y \<or> flt x y)"

text \<open>
  \<open>round(x, 2)\<close>: the exact value of \<open>x\<close> rounded half-to-even to two decimals, then
  converted back to the nearest float; an infinity or NaN is returned as it is.
\<close>

fun py_round2 :: "pyfloat \<Rightarrow> pyfloat" where
  "py_round2 (Fin a) = fl (of_int (rhe (a * 100)) / 100)"
| "py_round2 x = x"

subsection \<open>Exceptions\<close>

text \<open>
  The exceptions that the modelled code can raise. The message of a \<open>ValueError\<close>
  and the status and detail of an \<open>HTTPException\<close> are kept.
\<close>

datatype error =
    ValueError string
  | TypeError
  | OverflowError
  | ZeroDivisionError
  | AttributeError
  | KeyError
  | ValidationError
  | HTTPException nat string

text \<open>\<open>round(x)\<close> gives an \<open>int\<close>, ties to even; it raises on an infinity or NaN.\<close>

fun py_round :: "pyfloat \<Rightarrow> error + int" where
  "py_round (Fin a) = Inr (rhe a)"
| "py_round NaN = Inl (ValueError ''cannot convert float NaN to integer'')"
| "py_round x = Inl OverflowError"

text \<open>
  \<open>a / b\<close> on two \<open>int\<close>s: the exact quotient, correctly rounded; it raises on a zero
  divisor and when the quotient is too large for a float.
\<close>

definition int_truediv :: "int \<Rightarrow> int \<Rightarrow> error + pyfloat" where
  "int_truediv a b =
     (if b = 0 then Inl ZeroDivisionError
      else (case fl (of_int a / of_int b) of
              Fin r \<Rightarrow> Inr (Fin r)
            | _ \<Rightarrow> Inl OverflowError))"

subsection \<open>Strings and numbers\<close>

text \<open>
  A string is a list of bytes, so only the ASCII digits and the ASCII white space are
  recognised below; the error messages of the source are written without their
  diacritics.
\<close>

definition is_digit :: "char \<Rightarrow> bool" where
  "is_digit c = (c \<in> set ''0123456789'')"

definition digit_val :: "char \<Rightarrow> nat" where
  "digit_val c = of_char c - 48"

definition digit_char :: "nat \<Rightarrow> char" where
  "digit_char d = ''0123456789'' ! d"

definition is_space :: "char \<Rightarrow> bool" where
  "is_space c = (c \<in> set [CHR 0x20, CHR 0x09, CHR 0x0A, CHR 0x0B, CHR 0x0C, CHR 0x0D])"

definition strip :: "string \<Rightarrow> string" where
  "strip s = rev (dropWhile is_space (rev (dropWhile is_space s)))"

text \<open>\<open>str(i)\<close> for an \<open>int\<close>: the decimal digits, with a minus sign when negative.\<close>

fun digits :: "nat \<Rightarrow> string" where
  "digits n = (if n < 10 then [digit_char n] else digits (n div 10) @ [digit_char (n mod 10)])"

declare digits.simps [simp del]

definition str_of_int :: "int \<Rightarrow> string" where
  "str_of_int i = (if i < 0 then CHR ''-'' # digits (nat (- i)) else digits (nat i))"

text \<open>
  The digit part of a Python numeric literal: digits, with single underscores allowed
  between two digits. \<open>py_digits acc s\<close> reads the rest of a digit part after a digit.
\<close>

fun py_digits :: "nat \<Rightarrow> string \<Rightarrow> nat option" where
  "py_digits acc [] = Some acc"
| "py_digits acc [c] = (if is_digit c then Some (10 * acc + digit_val c) else None)"
| "py_digits acc (c # d # cs) =
     (if is_digit c then py_digits (10 * acc + digit_val c) (d # cs)
      else if c = CHR ''_'' \<and> is_digit d then py_digits (10 * acc + digit_val d) cs
      else None)"

definition digitpart :: "string \<Rightarrow> nat option" where
  "digitpart s = (case s of [] \<Rightarrow> None
                  | c # cs \<Rightarrow> (if is_digit c then py_digits (digit_val c) cs else None))"

text \<open>An optional sign, then a digit part: the body of \<open>int(s)\<close> and of an exponent.\<close>

definition signed_digitpart :: "string \<Rightarrow> int option" where
  "signed_digitpart s =
     (case s of
        [] \<Rightarrow> None
      | c # cs \<Rightarrow>
          (if c = CHR ''-'' then map_option (\<lambda>n. - int n) (digitpart cs)
           else if c = CHR ''+'' then map_option int (digitpart cs)
           else map_option int (digitpart s)))"

definition int_of_str :: "string \<Rightarrow> int option" where
  "int_of_str s = signed_digitpart (strip s)"

text \<open>
  \<open>float(s)\<close> on a string: white space stripped, an optional sign, then \<open>inf\<close>,
  \<open>infinity\<close> or \<open>nan\<close> in any case, or a decimal number with an optional fraction and
  an optional exponent; the value is the nearest float.
\<close>

definition lower :: "string \<Rightarrow> string" where
  "lower s = map (\<lambda>c. if c \<in> set ''ABCDEFGHIJKLMNOPQRSTUVWXYZ''
                       then char_of (of_char c + (32::nat)) else c) s"

definition split_at :: "(char \<Rightarrow> bool) \<Rightarrow> string \<Rightarrow> string \<times> string option" where
  "split_at P s = (case dropWhile (\<lambda>c. \<not> P c) s of
                     [] \<Rightarrow> (s, None)
                   | _ # r \<Rightarrow> (takeWhile (\<lambda>c. \<not> P c) s, Some r))"

definition opt_digitpart :: "string \<Rightarrow> nat option" where
  "opt_digitpart s = (if s = [] then Some 0 else digitpart s)"

definition mantissa :: "string \<Rightarrow> rat option" where
  "mantissa s =
     (case split_at (\<lambda>c. c = CHR ''.'') s of
        (ip, None) \<Rightarrow> map_option of_nat (digitpart ip)
      | (ip, Some fp) \<Rightarrow>
          if ip = [] \<and> fp = [] then None
          else (case (opt_digitpart ip, opt_digitpart fp) of
                  (Some i, Some f) \<Rightarrow>
                    Some (of_nat i + of_nat f / 10 ^ length (filter is_digit fp))
                | _ \<Rightarrow> None))"

definition pow10 :: "int \<Rightarrow> rat" where
  "pow10 e = (if 0 \<le> e then 10 ^ nat e else 1 / 10 ^ nat (- e))"

definition floatnumber :: "string \<Rightarrow> rat option" where
  "floatnumber s =
     (case split_at (\<lambda>c. c = CHR ''e'' \<or> c = CHR ''E'') s of
        (m, None) \<Rightarrow> mantissa m
      | (m, Some ex) \<Rightarrow>
          (case (mantissa m, signed_digitpart ex) of
             (Some q, Some e) \<Rightarrow> Some (q * pow10 e)
           | _ \<Rightarrow> None))"

definition absfloatvalue :: "string \<Rightarrow> pyfloat option" where
  "absfloatvalue s =
     (if lower s = ''inf'' \<or> lower s = ''infinity'' then Some PInf
      else if lower s = ''nan'' then Some NaN
      else map_option fl (floatnumber s))"

definition float_of_str :: "string \<Rightarrow> pyfloat option" where
  "float_of_str s =
     (case strip s of
        [] \<Rightarrow> None
      | c # cs \<Rightarrow>
          (if c = CHR ''-'' then map_option fneg (absfloatvalue cs)
           else if c = CHR ''+'' then absfloatvalue cs
           else absfloatvalue (c # cs)))"

subsection \<open>JSON values\<close>

text \<open>
  The values that \<open>json.load\<close> returns and \<open>json.dump\<close> accepts, and that reach the
  store from a request body. An object is an insertion-ordered list of key/value
  pairs, as a Python \<open>dict\<close> is.
\<close>

datatype json =
    JNull
  | JBool bool
  | JInt int
  | JFloat pyfloat
  | JStr string
  | JList "json list"
  | JObj "(string \<times> json) list"

text \<open>\<open>float(v)\<close> and \<open>int(v)\<close> on such a value.\<close>

fun python_float :: "json \<Rightarrow> error + pyfloat" where
  "python_float (JFloat x) = Inr x"
| "python_float (JInt i) =
     (case fl (of_int i) of Fin r \<Rightarrow> Inr (Fin r) | _ \<Rightarrow> Inl OverflowError)"
| "python_float (JBool b) = Inr (Fin (if b then 1 else 0))"
| "python_float (JStr s) =
     (case float_of_str s of
        Some x \<Rightarrow> Inr x
      | None \<Rightarrow> Inl (ValueError ''could not convert string to float''))"
| "python_float _ = Inl TypeError"

fun python_int :: "json \<Rightarrow> error + int" where
  "python_int (JInt i) = Inr i"
| "python_int (JBool b) = Inr (if b then 1 else 0)"
| "python_int (JFloat (Fin a)) = Inr (if 0 \<le> a then \<lfloor>a\<rfloor> else \<lceil>a\<rceil>)"
| "python_int (JFloat NaN) = Inl (ValueError ''cannot convert float NaN to integer'')"
| "python_int (JFloat _) = Inl OverflowError"
| "python_int (JStr s) =
     (case int_of_str s of
        Some i \<Rightarrow> Inr i
      | None \<Rightarrow> Inl (ValueError ''invalid literal for int() with base 10''))"
| "python_int _ = Inl TypeError"

subsection \<open>Dictionaries\<close>

text \<open>
  A \<open>dict\<close> keeps its keys in insertion order: assigning to a key that is present
  replaces the value in place, assigning to a new key appends it.
\<close>

definition dict_get :: "('k \<times> 'v) list \<Rightarrow> 'k \<Rightarrow> 'v option" where
  "dict_get d k = map_of d k"

definition has_key :: "('k \<times> 'v) list \<Rightarrow> 'k \<Rightarrow> bool" where
  "has_key d k = (k \<in> set (map fst d))"

fun dict_set :: "('k \<times> 'v) list \<Rightarrow> 'k \<Rightarrow> 'v \<Rightarrow> ('k \<times> 'v) list" where
  "dict_set [] k v = [(k, v)]"
| "dict_set ((k', v') # d) k v =
     (if k' = k then (k, v) # d else (k', v') # dict_set d k v)"

text \<open>A dict comprehension over a list of items: each item is assigned in turn.\<close>

definition dict_of_items :: "('k \<times> 'v) list \<Rightarrow> ('k \<times> 'v) list" where
  "dict_of_items kvs = foldl (\<lambda>d (k, v). dict_set d k v) [] kvs"

text \<open>Running a step that may raise over a list, stopping at the first exception.\<close>

fun map_err :: "('a \<Rightarrow> error + 'b) \<Rightarrow> 'a list \<Rightarrow> error + 'b list" where
  "map_err f [] = Inr []"
| "map_err f (x # xs) =
     (case f x of
        Inl e \<Rightarrow> Inl e
      | Inr y \<Rightarrow> (case map_err f xs of Inl e \<Rightarrow> Inl e | Inr ys \<Rightarrow> Inr (y # ys)))"

definition bind_err :: "error + 'a \<Rightarrow> ('a \<Rightarrow> error + 'b) \<Rightarrow> error + 'b" where
  "bind_err m f = (case m of Inl e \<Rightarrow> Inl e | Inr x \<Rightarrow> f x)"

section \<open>The models (app/models.py)\<close>

text \<open>
  The three stored models. A field whose name is already taken by another record or by
  a constant of the library carries a suffix: \<open>nome_t\<close>, \<open>alunos_t\<close> of \<open>Turma\<close>,
  \<open>id_a\<close> of \<open>Atividade\<close>. The payload of an \<open>entrega\<close> is an open \<open>dict\<close>
  (\<open>Dict[str, dict]\<close>), with the keys \<open>arquivo\<close> and \<open>nota\<close> in use.
\<close>

record Aluno =
  nome :: string
  ra :: string
  curso :: string
  np1 :: "pyfloat option"
  np2 :: "pyfloat option"
  pim :: "pyfloat option"

record Turma =
  codigo :: string
  nome_t :: string
  alunos_t :: "string list"

type_synonym payload = "(string \<times> json) list"

record Atividade =
  id_a :: int
  turma_codigo :: string
  titulo :: string
  data_entrega :: string
  entregas :: "(string \<times> payload) list"

text \<open>\<open>model_dump()\<close> of each model, as the JSON value that \<open>json.dump\<close> writes.\<close>

definition dump_opt_float :: "pyfloat option \<Rightarrow> json" where
  "dump_opt_float x = (case x of None \<Rightarrow> JNull | Some v \<Rightarrow> JFloat v)"

definition Aluno_model_dump :: "Aluno \<Rightarrow> json" where
  "Aluno_model_dump a =
     JObj [(''nome'', JStr (nome a)), (''ra'', JStr (ra a)), (''curso'', JStr (curso a)),
           (''np1'', dump_opt_float (np1 a)), (''np2'', dump_opt_float (np2 a)),
           (''pim'', dump_opt_float (pim a))]"

definition Turma_model_dump :: "Turma \<Rightarrow> json" where
  "Turma_model_dump t =
     JObj [(''codigo'', JStr (codigo t)), (''nome'', JStr (nome_t t)),
           (''alunos'', JList (map JStr (alunos_t t)))]"

definition Atividade_model_dump :: "Atividade \<Rightarrow> json" where
  "Atividade_model_dump a =
     JObj [(''id'', JInt (id_a a)), (''turma_codigo'', JStr (turma_codigo a)),
           (''titulo'', JStr (titulo a)), (''data_entrega'', JStr (data_entrega a)),
           (''entregas'', JObj (map (\<lambda>(r, p). (r, JObj p)) (entregas a)))]"

text \<open>
  The constructors \<open>Aluno(**a)\<close>, \<open>Turma(**t)\<close>, \<open>Atividade(**atv)\<close> on a loaded JSON
  value. The argument must be a mapping (\<open>TypeError\<close> otherwise); a missing required
  field or a field of the wrong type is a \<open>ValidationError\<close>; keys that are not fields
  are ignored. A \<open>str\<close> field takes a JSON string, the \<open>int\<close> field a JSON integer,
  an \<open>Optional[float]\<close> field a JSON number or \<open>null\<close> and defaults to \<open>None\<close>,
  \<open>alunos\<close> a list of strings and \<open>entregas\<close> an object of objects, both empty by
  default. The conversions that the validation library makes from other types into a
  number field (a numeric string, say) are not part of this model, which rejects them.
\<close>

definition validate_opt_float :: "json option \<Rightarrow> error + pyfloat option" where
  "validate_opt_float v =
     (case v of
        None \<Rightarrow> Inr None
      | Some JNull \<Rightarrow> Inr None
      | Some (JFloat x) \<Rightarrow> Inr (Some x)
      | Some (JInt i) \<Rightarrow>
          (case fl (of_int i) of Fin r \<Rightarrow> Inr (Some (Fin r)) | _ \<Rightarrow> Inl ValidationError)
      | _ \<Rightarrow> Inl ValidationError)"

definition validate_str :: "json option \<Rightarrow> error + string" where
  "validate_str v = (case v of Some (JStr s) \<Rightarrow> Inr s | _ \<Rightarrow> Inl ValidationError)"

definition validate_int :: "json option \<Rightarrow> error + int" where
  "validate_int v = (case v of Some (JInt i) \<Rightarrow> Inr i | _ \<Rightarrow> Inl ValidationError)"

definition validate_str_list :: "json option \<Rightarrow> error + string list" where
  "validate_str_list v =
     (case v of
        None \<Rightarrow> Inr []
      | Some (JList xs) \<Rightarrow> map_err (\<lambda>x. validate_str (Some x)) xs
      | _ \<Rightarrow> Inl ValidationError)"

definition validate_entregas :: "json option \<Rightarrow> error + (string \<times> payload) list" where
  "validate_entregas v =
     (case v of
        None \<Rightarrow> Inr []
      | Some (JObj kvs) \<Rightarrow>
          map_err (\<lambda>(r, p). case p of JObj d \<Rightarrow> Inr (r, d) | _ \<Rightarrow> Inl ValidationError) kvs
      | _ \<Rightarrow> Inl ValidationError)"

definition Aluno_validate :: "json \<Rightarrow> error + Aluno" where
  "Aluno_validate a =
     (case a of
        JObj d \<Rightarrow>
          bind_err (validate_str (map_of d ''nome'')) (\<lambda>n.
          bind_err (validate_str (map_of d ''ra'')) (\<lambda>r.
          bind_err (validate_str (map_of d ''curso'')) (\<lambda>c.
          bind_err (validate_opt_float (map_of d ''np1'')) (\<lambda>x.
          bind_err (validate_opt_float (map_of d ''np2'')) (\<lambda>y.
          bind_err (validate_opt_float (map_of d ''pim'')) (\<lambda>z.
            Inr \<lparr>nome = n, ra = r, curso = c, np1 = x, np2 = y, pim = z\<rparr>))))))
      | _ \<Rightarrow> Inl TypeError)"

definition Turma_validate :: "json \<Rightarrow> error + Turma" where
  "Turma_validate t =
     (case t of
        JObj d \<Rightarrow>
          bind_err (validate_str (map_of d ''codigo'')) (\<lambda>c.
          bind_err (validate_str (map_of d ''nome'')) (\<lambda>n.
          bind_err (validate_str_list (map_of d ''alunos'')) (\<lambda>rs.
            Inr \<lparr>codigo = c, nome_t = n, alunos_t = rs\<rparr>)))
      | _ \<Rightarrow> Inl TypeError)"

definition Atividade_validate :: "json \<Rightarrow> error + Atividade" where
  "Atividade_validate atv =
     (case atv of
        JObj d \<Rightarrow>
          bind_err (validate_int (map_of d ''id'')) (\<lambda>i.
          bind_err (validate_str (map_of d ''turma_codigo'')) (\<lambda>c.
          bind_err (validate_str (map_of d ''titulo'')) (\<lambda>t.
          bind_err (validate_str (map_of d ''data_entrega'')) (\<lambda>dt.
          bind_err (validate_entregas (map_of d ''entregas'')) (\<lambda>es.
            Inr \<lparr>id_a = i, turma_codigo = c, titulo = t, data_entrega = dt,
                 entregas = es\<rparr>)))))
      | _ \<Rightarrow> Inl TypeError)"

section \<open>The data store (app/repositories.py)\<close>

text \<open>
  The state of a \<open>DataStore\<close> object: three dicts and the counter. The file
  \<open>data/db.json\<close> is outside the object: \<open>world\<close> pairs the store with the content of
  the file (\<open>None\<close> when it does not exist) and counts the writes made to it.
\<close>

record DataStore =
  alunos :: "(string \<times> Aluno) list"
  turmas :: "(string \<times> Turma) list"
  atividades :: "(int \<times> Atividade) list"
  next_atv_id :: int

record world =
  db :: DataStore
  data_file :: "json option"
  n_writes :: nat

subsection \<open>Serialisation\<close>

text \<open>
  \<open>_save\<close> writes the whole state; \<open>json.dump\<close> writes the \<open>int\<close> keys of
  \<open>atividades\<close> as their decimal strings.
\<close>

definition dump_store :: "DataStore \<Rightarrow> json" where
  "dump_store s =
     JObj [(''alunos'', JObj (map (\<lambda>(r, a). (r, Aluno_model_dump a)) (alunos s))),
           (''turmas'', JObj (map (\<lambda>(c, t). (c, Turma_model_dump t)) (turmas s))),
           (''atividades'',
              JObj (map (\<lambda>(i, a). (str_of_int i, Atividade_model_dump a)) (atividades s))),
           (''next_id'', JInt (next_atv_id s))]"

definition save :: "world \<Rightarrow> world" where
  "save w = w\<lparr>data_file := Some (dump_store (db w)), n_writes := Suc (n_writes w)\<rparr>"

text \<open>\<open>raw.get(key, default)\<close> and \<open>.items()\<close>, which exist on a \<open>dict\<close> only.\<close>

definition json_get :: "json \<Rightarrow> string \<Rightarrow> json \<Rightarrow> error + json" where
  "json_get raw k dflt =
     (case raw of
        JObj d \<Rightarrow> Inr (case map_of d k of None \<Rightarrow> dflt | Some v \<Rightarrow> v)
      | _ \<Rightarrow> Inl AttributeError)"

definition json_items :: "json \<Rightarrow> error + (string \<times> json) list" where
  "json_items v = (case v of JObj d \<Rightarrow> Inr d | _ \<Rightarrow> Inl AttributeError)"

text \<open>
  The body of \<open>_load\<close> on the loaded document: the three dict comprehensions in the
  order of the source, then the counter. An exception leaves \<open>__init__\<close>, so no store
  comes into being.
\<close>

definition load_store :: "json \<Rightarrow> error + DataStore" where
  "load_store raw =
     bind_err (json_get raw ''alunos'' (JObj [])) (\<lambda>ja.
     bind_err (json_items ja) (\<lambda>ia.
     bind_err (map_err (\<lambda>(r, a). bind_err (Aluno_validate a) (\<lambda>x. Inr (r, x))) ia) (\<lambda>als.
     bind_err (json_get raw ''turmas'' (JObj [])) (\<lambda>jt.
     bind_err (json_items jt) (\<lambda>it.
     bind_err (map_err (\<lambda>(c, t). bind_err (Turma_validate t) (\<lambda>x. Inr (c, x))) it) (\<lambda>ts.
     bind_err (json_get raw ''atividades'' (JObj [])) (\<lambda>jv.
     bind_err (json_items jv) (\<lambda>iv.
     bind_err (map_err (\<lambda>(i, atv). bind_err (python_int (JStr i)) (\<lambda>k.
                                    bind_err (Atividade_validate atv) (\<lambda>x. Inr (k, x)))) iv) (\<lambda>avs.
     bind_err (json_get raw ''next_id'' (JInt 1)) (\<lambda>jn.
     bind_err (python_int jn) (\<lambda>n.
       Inr \<lparr>alunos = dict_of_items als, turmas = dict_of_items ts,
            atividades = dict_of_items avs, next_atv_id = n\<rparr>)))))))))))"

definition load :: "world \<Rightarrow> error + world" where
  "load w =
     (case data_file w of
        None \<Rightarrow> Inr w
      | Some raw \<Rightarrow> bind_err (load_store raw) (\<lambda>s. Inr (w\<lparr>db := s\<rparr>)))"

text \<open>\<open>DataStore()\<close>: the empty store with the counter at 1, then \<open>_load\<close>.\<close>

definition empty_store :: DataStore where
  "empty_store = \<lparr>alunos = [], turmas = [], atividades = [], next_atv_id = 1\<rparr>"

definition init :: "json option \<Rightarrow> error + world" where
  "init file = load \<lparr>db = empty_store, data_file = file, n_writes = 0\<rparr>"

subsection \<open>Operations\<close>

text \<open>
  A method that changes the store maps a world to the world after the call and to
  what the call gives: \<open>Inl\<close> the exception raised, \<open>Inr\<close> the value returned. An
  object found in a dict and changed in place is written back under the key it was
  found at.
\<close>

definition get_aluno :: "DataStore \<Rightarrow> string \<Rightarrow> Aluno option" where
  "get_aluno s r = dict_get (alunos s) r"

definition get_turma :: "DataStore \<Rightarrow> string \<Rightarrow> Turma option" where
  "get_turma s c = dict_get (turmas s) c"

definition get_atividade :: "DataStore \<Rightarrow> int \<Rightarrow> Atividade option" where
  "get_atividade s i = dict_get (atividades s) i"

definition put_aluno :: "world \<Rightarrow> string \<Rightarrow> Aluno \<Rightarrow> world" where
  "put_aluno w r a = w\<lparr>db := (db w)\<lparr>alunos := dict_set (alunos (db w)) r a\<rparr>\<rparr>"

definition put_turma :: "world \<Rightarrow> string \<Rightarrow> Turma \<Rightarrow> world" where
  "put_turma w c t = w\<lparr>db := (db w)\<lparr>turmas := dict_set (turmas (db w)) c t\<rparr>\<rparr>"

definition put_atividade :: "world \<Rightarrow> int \<Rightarrow> Atividade \<Rightarrow> world" where
  "put_atividade w i a = w\<lparr>db := (db w)\<lparr>atividades := dict_set (atividades (db w)) i a\<rparr>\<rparr>"

definition add_aluno :: "world \<Rightarrow> Aluno \<Rightarrow> world \<times> (error + Aluno)" where
  "add_aluno w aluno =
     (if has_key (alunos (db w)) (ra aluno)
      then (w, Inl (ValueError ''RA ja cadastrado.''))
      else (save (put_aluno w (ra aluno) aluno), Inr aluno))"

definition add_turma :: "world \<Rightarrow> Turma \<Rightarrow> world \<times> (error + Turma)" where
  "add_turma w turma =
     (if has_key (turmas (db w)) (codigo turma)
      then (w, Inl (ValueError ''Turma ja cadastrada.''))
      else (save (put_turma w (codigo turma) turma), Inr turma))"

definition add_aluno_to_turma :: "world \<Rightarrow> string \<Rightarrow> string \<Rightarrow> world \<times> (error + Turma)" where
  "add_aluno_to_turma w c r =
     (case get_turma (db w) c of
        None \<Rightarrow> (w, Inl (ValueError ''Turma nao encontrada.''))
      | Some turma \<Rightarrow>
          (if \<not> has_key (alunos (db w)) r
           then (w, Inl (ValueError ''Aluno (RA) nao encontrado.''))
           else (let turma' = (if r \<notin> set (alunos_t turma)
                               then turma\<lparr>alunos_t := alunos_t turma @ [r]\<rparr> else turma)
                 in (save (put_turma w c turma'), Inr turma'))))"

definition add_atividade :: "world \<Rightarrow> Atividade \<Rightarrow> world \<times> (error + Atividade)" where
  "add_atividade w atv =
     (let atv' = atv\<lparr>id_a := next_atv_id (db w)\<rparr>;
          w1 = w\<lparr>db := (db w)\<lparr>next_atv_id := next_atv_id (db w) + 1\<rparr>\<rparr>
      in (save (put_atividade w1 (id_a atv') atv'), Inr atv'))"

definition add_entrega ::
  "world \<Rightarrow> int \<Rightarrow> string \<Rightarrow> string \<Rightarrow> world \<times> (error + Atividade)" where
  "add_entrega w i r arquivo =
     (case get_atividade (db w) i of
        None \<Rightarrow> (w, Inl (ValueError ''Atividade nao encontrada.''))
      | Some atv \<Rightarrow>
          (if \<not> has_key (alunos (db w)) r
           then (w, Inl (ValueError ''Aluno (RA) nao encontrado.''))
           else (let payload = (case dict_get (entregas atv) r of None \<Rightarrow> [] | Some p \<Rightarrow> p);
                     payload' = dict_set payload ''arquivo'' (JStr arquivo);
                     atv' = atv\<lparr>entregas := dict_set (entregas atv) r payload'\<rparr>
                 in (save (put_atividade w i atv'), Inr atv'))))"

definition set_nota_entrega ::
  "world \<Rightarrow> int \<Rightarrow> string \<Rightarrow> json \<Rightarrow> world \<times> (error + Atividade)" where
  "set_nota_entrega w i r nota =
     (if nota = JNull then (w, Inl (ValueError ''Informe uma nota.''))
      else (case python_float nota of
              Inl _ \<Rightarrow> (w, Inl (ValueError ''Nota invalida.''))
            | Inr n \<Rightarrow>
                (if flt n (Fin 0) \<or> flt (Fin 10) n
                 then (w, Inl (ValueError ''Nota deve estar entre 0 e 10.''))
                 else (case get_atividade (db w) i of
                         None \<Rightarrow> (w, Inl (ValueError ''Atividade nao encontrada.''))
                       | Some atv \<Rightarrow>
                           (if \<not> has_key (alunos (db w)) r
                            then (w, Inl (ValueError ''Aluno (RA) nao encontrado.''))
                            else (let payload = (case dict_get (entregas atv) r of
                                                   None \<Rightarrow> [] | Some p \<Rightarrow> p);
                                      payload' = dict_set payload ''nota'' (JFloat n);
                                      atv' = atv\<lparr>entregas := dict_set (entregas atv) r payload'\<rparr>
                                  in (save (put_atividade w i atv'), Inr atv')))))))"

subsection \<open>Grades of a student\<close>

text \<open>The dict that \<open>get_notas\<close> returns; its first three keys carry a suffix here.\<close>

record notas =
  np1_v :: "pyfloat option"
  np2_v :: "pyfloat option"
  pim_v :: "pyfloat option"
  media :: "pyfloat option"
  situacao :: string

definition get_notas :: "DataStore \<Rightarrow> string \<Rightarrow> notas option" where
  "get_notas s r =
     (case dict_get (alunos s) r of
        None \<Rightarrow> None
      | Some aluno \<Rightarrow>
          (case (np1 aluno, np2 aluno, pim aluno) of
             (Some x, Some y, Some z) \<Rightarrow>
               (let m = py_round2
                          (fdiv (fadd (fadd (fmul x (Fin 4)) (fmul y (Fin 4))) (fmul z (Fin 2)))
                                (Fin 10))
                in Some \<lparr>np1_v = np1 aluno, np2_v = np2 aluno, pim_v = pim aluno,
                         media = Some m,
                         situacao = (if fle (Fin 7) m then ''Aprovado'' else ''Reprovado'')\<rparr>)
           | _ \<Rightarrow>
               Some \<lparr>np1_v = np1 aluno, np2_v = np2 aluno, pim_v = pim aluno,
                     media = None, situacao = ''Sem notas''\<rparr>))"

text \<open>
  The inner function \<open>_val\<close> of \<open>set_notas\<close>: \<open>except Exception\<close> turns whatever
  \<open>float(v)\<close> raises into the \<open>ValueError\<close> of the field.
\<close>

definition val :: "json \<Rightarrow> string \<Rightarrow> error + unit" where
  "val v nome' =
     (if v = JNull then Inr ()
      else (case python_float v of
              Inl _ \<Rightarrow> Inl (ValueError (nome' @ '' invalida.''))
            | Inr n \<Rightarrow>
                (if flt n (Fin 0) \<or> flt (Fin 10) n
                 then Inl (ValueError (nome' @ '' deve estar entre 0 e 10.''))
                 else Inr ())))"

text \<open>\<open>if v is not None: setattr(aluno, field, float(v))\<close>.\<close>

definition set_field ::
  "json \<Rightarrow> (pyfloat option \<Rightarrow> Aluno \<Rightarrow> Aluno) \<Rightarrow> Aluno \<Rightarrow> error + Aluno" where
  "set_field v upd aluno =
     (if v = JNull then Inr aluno
      else (case python_float v of Inl e \<Rightarrow> Inl e | Inr x \<Rightarrow> Inr (upd (Some x) aluno)))"

definition set_notas ::
  "world \<Rightarrow> string \<Rightarrow> json \<Rightarrow> json \<Rightarrow> json \<Rightarrow> world \<times> (error + notas option)" where
  "set_notas w r v1 v2 v3 =
     (case dict_get (alunos (db w)) r of
        None \<Rightarrow> (w, Inl (ValueError ''Aluno nao encontrado.''))
      | Some aluno \<Rightarrow>
          (case val v1 ''NP1'' of Inl e \<Rightarrow> (w, Inl e) | Inr _ \<Rightarrow>
          (case val v2 ''NP2'' of Inl e \<Rightarrow> (w, Inl e) | Inr _ \<Rightarrow>
          (case val v3 ''PIM'' of Inl e \<Rightarrow> (w, Inl e) | Inr _ \<Rightarrow>
          (case set_field v1 (\<lambda>x a. a\<lparr>np1 := x\<rparr>) aluno of
             Inl e \<Rightarrow> (w, Inl e)
           | Inr a1 \<Rightarrow>
          (case set_field v2 (\<lambda>x a. a\<lparr>np2 := x\<rparr>) a1 of
             Inl e \<Rightarrow> (put_aluno w r a1, Inl e)
           | Inr a2 \<Rightarrow>
          (case set_field v3 (\<lambda>x a. a\<lparr>pim := x\<rparr>) a2 of
             Inl e \<Rightarrow> (put_aluno w r a2, Inl e)
           | Inr a3 \<Rightarrow>
               (let w' = save (put_aluno w r a3)
                in (w', Inr (get_notas (db w') r))))))))))"

subsection \<open>Quick queries of the teacher\<close>

definition atividades_da_turma :: "DataStore \<Rightarrow> string \<Rightarrow> Atividade list" where
  "atividades_da_turma s c = filter (\<lambda>a. turma_codigo a = c) (map snd (atividades s))"

text \<open>\<open>d.get(k)\<close> on a payload: \<open>None\<close>, here \<open>JNull\<close>, when the key is missing.\<close>

definition payload_get :: "payload \<Rightarrow> string \<Rightarrow> json" where
  "payload_get p k = (case dict_get p k of None \<Rightarrow> JNull | Some v \<Rightarrow> v)"

definition pendencias_entrega :: "DataStore \<Rightarrow> string \<Rightarrow> error + (int \<times> string list) list" where
  "pendencias_entrega s c =
     (case get_turma s c of
        None \<Rightarrow> Inl (ValueError ''Turma nao encontrada.'')
      | Some t \<Rightarrow>
          Inr (foldl (\<lambda>out atv.
                 dict_set out (id_a atv) (filter (\<lambda>r. \<not> has_key (entregas atv) r) (alunos_t t)))
               [] (atividades_da_turma s c)))"

text \<open>The inner loop of \<open>pendencias_nota\<close> over the members of the class.\<close>

definition sem_nota :: "Turma \<Rightarrow> Atividade \<Rightarrow> string list" where
  "sem_nota t atv =
     filter (\<lambda>r. (case dict_get (entregas atv) r of
                    None \<Rightarrow> JNull
                  | Some payload \<Rightarrow> payload_get payload ''nota'') = JNull)
            (alunos_t t)"

definition pendencias_nota :: "DataStore \<Rightarrow> string \<Rightarrow> error + (int \<times> string list) list" where
  "pendencias_nota s c =
     (case get_turma s c of
        None \<Rightarrow> Inl (ValueError ''Turma nao encontrada.'')
      | Some t \<Rightarrow>
          Inr (foldl (\<lambda>out atv. dict_set out (id_a atv) (sem_nota t atv))
               [] (atividades_da_turma s c)))"

section \<open>Reports (app/routers/relatorios.py)\<close>

text \<open>
  \<open>_coletar_notas_da_atividade\<close>, as a loop over the payloads in
  \<open>atv.entregas.values()\<close>. The \<open>TypeError\<close> or \<open>ValueError\<close> of \<open>float(valor)\<close> is
  caught and the payload skipped; any other exception leaves the function.
\<close>

fun caught :: "error \<Rightarrow> bool" where
  "caught TypeError = True"
| "caught (ValueError _) = True"
| "caught _ = False"

fun coletar_notas :: "payload list \<Rightarrow> error + pyfloat list" where
  "coletar_notas [] = Inr []"
| "coletar_notas (payload # ps) =
     (let valor = payload_get payload ''nota''
      in if valor = JNull then coletar_notas ps
         else (case python_float valor of
                 Inl e \<Rightarrow> (if caught e then coletar_notas ps else Inl e)
               | Inr n \<Rightarrow>
                   (if fle (Fin 0) n \<and> fle n (Fin 10)
                    then bind_err (coletar_notas ps) (\<lambda>ns. Inr (n # ns))
                    else coletar_notas ps)))"

definition coletar_notas_da_atividade :: "Atividade \<Rightarrow> error + pyfloat list" where
  "coletar_notas_da_atividade atv = coletar_notas (map snd (entregas atv))"

text \<open>One entry of the list \<open>atividades\<close> of the class report, and the report.\<close>

record item_relatorio =
  id_r :: int
  titulo_r :: string
  data_entrega_r :: string
  total_entregas :: int
  percentual_entregas :: pyfloat

record relatorio =
  turma_r :: string
  nome_r :: string
  total_alunos :: int
  total_atividades :: int
  atividades_r :: "item_relatorio list"
  media_entregas_por_atividade :: pyfloat

definition item_da_atividade :: "Turma \<Rightarrow> Atividade \<Rightarrow> error + item_relatorio" where
  "item_da_atividade turma atv =
     (let total = int (length (entregas atv))
      in bind_err
           (if alunos_t turma \<noteq> []
            then bind_err (int_truediv total (int (length (alunos_t turma))))
                   (\<lambda>q. Inr (py_round2 (fmul q (Fin 100))))
            else Inr (Fin 0))
           (\<lambda>percentual.
              Inr \<lparr>id_r = id_a atv, titulo_r = titulo atv, data_entrega_r = data_entrega atv,
                   total_entregas = total, percentual_entregas = percentual\<rparr>))"

definition relatorio_turma :: "DataStore \<Rightarrow> string \<Rightarrow> error + relatorio" where
  "relatorio_turma s c =
     (case get_turma s c of
        None \<Rightarrow> Inl (HTTPException 404 ''Turma nao encontrada.'')
      | Some turma \<Rightarrow>
          (let ativs = filter (\<lambda>atv. turma_codigo atv = c) (map snd (atividades s))
           in bind_err (map_err (item_da_atividade turma) ativs) (\<lambda>items.
              bind_err
                (if ativs \<noteq> []
                 then bind_err
                        (int_truediv (sum_list (map (\<lambda>atv. int (length (entregas atv))) ativs))
                                     (int (length ativs)))
                        (\<lambda>q. Inr (py_round2 q))
                 else Inr (Fin 0))
                (\<lambda>m.
                   Inr \<lparr>turma_r = codigo turma, nome_r = nome_t turma,
                        total_alunos = int (length (alunos_t turma)),
                        total_atividades = int (length ativs),
                        atividades_r = items,
                        media_entregas_por_atividade = m\<rparr>))))"

text \<open>
  The histogram. \<open>buckets[k] += 1\<close> raises \<open>KeyError\<close> on a missing key, and
  \<open>round(n)\<close> raises on an infinity or NaN.
\<close>

datatype resposta =
    Mensagem int string
  | Distribuicao int "(int \<times> int) list"

fun contar :: "(int \<times> int) list \<Rightarrow> pyfloat list \<Rightarrow> error + (int \<times> int) list" where
  "contar buckets [] = Inr buckets"
| "contar buckets (n # ns) =
     bind_err (py_round n) (\<lambda>r.
       (let k = min (max r 0) 10
        in (case dict_get buckets k of
              None \<Rightarrow> Inl KeyError
            | Some c \<Rightarrow> contar (dict_set buckets k (c + 1)) ns)))"

definition distribuicao_notas :: "DataStore \<Rightarrow> int \<Rightarrow> error + resposta" where
  "distribuicao_notas s atividade_id =
     (case get_atividade s atividade_id of
        None \<Rightarrow> Inl (HTTPException 404 ''Atividade nao encontrada.'')
      | Some atv \<Rightarrow>
          bind_err (coletar_notas_da_atividade atv) (\<lambda>notas.
            if notas = [] then Inr (Mensagem atividade_id ''Sem notas registradas.'')
            else bind_err (contar (map (\<lambda>i. (i, 0)) [0..10]) notas)
                   (\<lambda>buckets. Inr (Distribuicao atividade_id buckets))))"

section \<open>Notions used in the statements\<close>

text \<open>
  The field \<open>k\<close> of the submission of \<open>r\<close> in an assignment: \<open>None\<close> (here
  \<open>JNull\<close>) when \<open>r\<close> has no submission or the submission has no such key.
\<close>

definition campo_entrega :: "Atividade \<Rightarrow> string \<Rightarrow> string \<Rightarrow> json" where
  "campo_entrega atv r k =
     (case dict_get (entregas atv) r of None \<Rightarrow> JNull | Some p \<Rightarrow> payload_get p k)"

text \<open>Successive calls of \<open>add_atividade\<close>, collecting the assignments returned.\<close>

fun add_atividades :: "world \<Rightarrow> Atividade list \<Rightarrow> world \<times> Atividade list" where
  "add_atividades w [] = (w, [])"
| "add_atividades w (atv # atvs) =
     (case add_atividade w atv of
        (w', Inl e) \<Rightarrow> (w', [])
      | (w', Inr a) \<Rightarrow> (case add_atividades w' atvs of (w'', as) \<Rightarrow> (w'', a # as)))"

text \<open>
  The valid grade of a submission, in the words of the specification: the value of
  its \<open>nota\<close> when that is numeric and lies in \<open>[0, 10]\<close>. The valid grades of an
  assignment are those of its submissions, in their order.
\<close>

definition nota_valida :: "payload \<Rightarrow> pyfloat option" where
  "nota_valida p =
     (case python_float (payload_get p ''nota'') of
        Inl _ \<Rightarrow> None
      | Inr n \<Rightarrow> (if fle (Fin 0) n \<and> fle n (Fin 10) then Some n else None))"

definition notas_validas :: "Atividade \<Rightarrow> pyfloat list" where
  "notas_validas atv = List.map_filter nota_valida (map snd (entregas atv))"

text \<open>The bucket of a grade: the nearest integer, clamped into \<open>[0, 10]\<close>.\<close>

fun balde :: "pyfloat \<Rightarrow> int" where
  "balde (Fin a) = min 10 (max 0 (rhe a))"
| "balde PInf = 10"
| "balde _ = 0"

text \<open>
  The keys of a Python \<open>dict\<close> are distinct; for the three dicts of the store, kept
  here as lists of pairs, this is a condition on the lists.
\<close>

definition chaves_distintas :: "DataStore \<Rightarrow> bool" where
  "chaves_distintas s \<longleftrightarrow>
     distinct (map fst (alunos s)) \<and> distinct (map fst (turmas s)) \<and>
     distinct (map fst (atividades s))"

section \<open>Example data\<close>

text \<open>
  A small store used to run the theorems below on concrete input: three students, a
  class with the three of them, a class without students, a class without
  assignments, and three assignments.
  The grades \<open>7.4\<close> and \<open>7.6\<close> are written as the floats they are.
\<close>

definition ex_store :: DataStore where
  "ex_store =
     \<lparr>alunos =
        [(''RA1'', \<lparr>nome = ''Ana'', ra = ''RA1'', curso = ''ADS'',
                    np1 = Some (Fin 8), np2 = Some (Fin 6), pim = Some (Fin 10)\<rparr>),
         (''RA2'', \<lparr>nome = ''Bia'', ra = ''RA2'', curso = ''ADS'',
                    np1 = Some (Fin 5), np2 = None, pim = None\<rparr>),
         (''RA3'', \<lparr>nome = ''Caio'', ra = ''RA3'', curso = ''ADS'',
                    np1 = Some (Fin 5), np2 = Some (Fin 5), pim = Some (Fin 5)\<rparr>)],
      turmas =
        [(''T1'', \<lparr>codigo = ''T1'', nome_t = ''ADS 1'', alunos_t = [''RA1'', ''RA2'', ''RA3'']\<rparr>),
         (''T0'', \<lparr>codigo = ''T0'', nome_t = ''ADS 0'', alunos_t = []\<rparr>),
         (''T2'', \<lparr>codigo = ''T2'', nome_t = ''ADS 2'', alunos_t = [''RA1'']\<rparr>)],
      atividades =
        [(1, \<lparr>id_a = 1, turma_codigo = ''T1'', titulo = ''Atv 1'', data_entrega = ''2025-11-30'',
              entregas =
                [(''RA1'', [(''arquivo'', JStr ''a1.pdf''),
                            (''nota'', JFloat (Fin (4165829655317709 / 562949953421312)))]),
                 (''RA2'', [(''arquivo'', JStr ''a2.pdf''),
                            (''nota'', JFloat (Fin (4278419646001971 / 562949953421312)))]),
                 (''RA3'', [(''nota'', JFloat (Fin 10))])]\<rparr>),
         (2, \<lparr>id_a = 2, turma_codigo = ''T0'', titulo = ''Atv 2'', data_entrega = ''2025-12-05'',
              entregas = [(''RA1'', [(''arquivo'', JStr ''b1.pdf'')])]\<rparr>),
         (3, \<lparr>id_a = 3, turma_codigo = ''T1'', titulo = ''Atv 3'', data_entrega = ''2025-12-10'',
              entregas = []\<rparr>)],
      next_atv_id = 4\<rparr>"

text \<open>
  A class of five students and one assignment: \<open>RA1\<close> has no submission, \<open>RA2\<close> a
  submission without grade, \<open>RA3\<close> one whose grade is the string \<open>abc\<close>, \<open>RA4\<close> one
  whose grade is NaN, \<open>RA5\<close> one with the grade \<open>8.0\<close>.
\<close>

definition ex_pendencias :: DataStore where
  "ex_pendencias =
     \<lparr>alunos =
        map (\<lambda>r. (r, \<lparr>nome = r, ra = r, curso = ''ADS'', np1 = None, np2 = None, pim = None\<rparr>))
            [''RA1'', ''RA2'', ''RA3'', ''RA4'', ''RA5''],
      turmas =
        [(''T1'', \<lparr>codigo = ''T1'', nome_t = ''ADS 1'',
                   alunos_t = [''RA1'', ''RA2'', ''RA3'', ''RA4'', ''RA5'']\<rparr>)],
      atividades =
        [(1, \<lparr>id_a = 1, turma_codigo = ''T1'', titulo = ''Atv 1'', data_entrega = ''2025-11-30'',
              entregas =
                [(''RA2'', [(''arquivo'', JStr ''a2.pdf'')]),
                 (''RA3'', [(''arquivo'', JStr ''a3.pdf''), (''nota'', JStr ''abc'')]),
                 (''RA4'', [(''arquivo'', JStr ''a4.pdf''), (''nota'', JFloat NaN)]),
                 (''RA5'', [(''arquivo'', JStr ''a5.pdf''), (''nota'', JFloat (Fin 8))])]\<rparr>)],
      next_atv_id = 2\<rparr>"

definition ex_world :: world where
  "ex_world = \<lparr>db = ex_store, data_file = None, n_writes = 0\<rparr>"

definition ex_aluno :: Aluno where
  "ex_aluno = \<lparr>nome = ''Ana Dois'', ra = ''RA1'', curso = ''SI'',
               np1 = None, np2 = None, pim = None\<rparr>"

definition ex_turma :: Turma where
  "ex_turma = \<lparr>codigo = ''T1'', nome_t = ''Outra'', alunos_t = []\<rparr>"

section \<open>Properties\<close>

subsection \<open>Dictionaries and exceptions\<close>

lemma bind_err_simps [simp]:
  "bind_err (Inl e) f = Inl e"
  "bind_err (Inr x) f = f x"
  by (simp_all add: bind_err_def)

lemma dict_get_dict_set:
  "dict_get (dict_set d k v) k' = (if k' = k then Some v else dict_get d k')"
  by (induction d) (auto simp: dict_get_def)

lemma keys_dict_set:
  "map fst (dict_set d k v) = (if has_key d k then map fst d else map fst d @ [k])"
  by (induction d) (force simp: has_key_def)+

lemma dict_set_new: "\<not> has_key d k \<Longrightarrow> dict_set d k v = d @ [(k, v)]"
  by (induction d) (auto simp: has_key_def)

lemma has_key_iff: "has_key d k \<longleftrightarrow> dict_get d k \<noteq> None"
  by (simp add: has_key_def dict_get_def map_of_eq_None_iff)

lemma distinct_dict_set: "distinct (map fst d) \<Longrightarrow> distinct (map fst (dict_set d k v))"
  by (simp add: keys_dict_set has_key_def)

lemma foldl_dict_set_distinct:
  "distinct (map fst (d @ kvs)) \<Longrightarrow> foldl (\<lambda>d (k, v). dict_set d k v) d kvs = d @ kvs"
proof (induction kvs arbitrary: d)
  case Nil
  then show ?case by simp
next
  case (Cons kv kvs)
  obtain k v where kv: "kv = (k, v)" by (cases kv)
  from Cons.prems have nk: "\<not> has_key d k" by (auto simp: kv has_key_def)
  from Cons.prems have "distinct (map fst ((d @ [(k, v)]) @ kvs))" by (simp add: kv)
  from Cons.IH [OF this] show ?case by (simp add: kv dict_set_new [OF nk])
qed

lemma dict_of_items_distinct: "distinct (map fst kvs) \<Longrightarrow> dict_of_items kvs = kvs"
  using foldl_dict_set_distinct [of "[]" kvs] by (simp add: dict_of_items_def)

lemma pair_fst_snd: "snd p = y \<Longrightarrow> p = (fst p, y)"
  by auto

lemmas ex_defs = ex_world_def ex_store_def ex_aluno_def ex_turma_def

subsection \<open>A failed call changes nothing\<close>

lemma val_Inr:
  "val v n = Inr u \<Longrightarrow>
   v = JNull \<or> (\<exists>x. python_float v = Inr x \<and> \<not> flt x (Fin 0) \<and> \<not> flt (Fin 10) x)"
  by (auto simp: val_def split: if_splits sum.splits)

lemma set_field_after_val: "val v n = Inr u \<Longrightarrow> \<exists>a'. set_field v upd a = Inr a'"
  by (auto simp: set_field_def dest!: val_Inr)

lemma add_aluno_fail: "add_aluno w a = (w', Inl e) \<Longrightarrow> w' = w"
  by (auto simp: add_aluno_def split: if_splits)

lemma add_turma_fail: "add_turma w t = (w', Inl e) \<Longrightarrow> w' = w"
  by (auto simp: add_turma_def split: if_splits)

lemma add_aluno_to_turma_fail: "add_aluno_to_turma w c r = (w', Inl e) \<Longrightarrow> w' = w"
  by (auto simp: add_aluno_to_turma_def Let_def split: if_splits option.splits)

lemma add_atividade_ok: "snd (add_atividade w atv) \<noteq> Inl e"
  by (simp add: add_atividade_def Let_def)

lemma add_entrega_fail: "add_entrega w i r f = (w', Inl e) \<Longrightarrow> w' = w"
  by (auto simp: add_entrega_def Let_def split: if_splits option.splits)

lemma set_nota_entrega_fail: "set_nota_entrega w i r n = (w', Inl e) \<Longrightarrow> w' = w"
  by (auto simp: set_nota_entrega_def Let_def split: if_splits option.splits sum.splits)

text \<open>
  In \<open>set_notas\<close> the three calls of \<open>_val\<close> come before the first \<open>setattr\<close>; once
  they have passed, no \<open>float(v)\<close> of the assignments can raise.
\<close>

lemma set_notas_fail: "set_notas w r v1 v2 v3 = (w', Inl e) \<Longrightarrow> w' = w"
proof -
  assume a: "set_notas w r v1 v2 v3 = (w', Inl e)"
  show ?thesis
  proof (cases "dict_get (alunos (db w)) r")
    case None
    with a show ?thesis by (simp add: set_notas_def)
  next
    case (Some aluno)
    show ?thesis
    proof (cases "\<exists>u1 u2 u3. val v1 ''NP1'' = Inr u1 \<and> val v2 ''NP2'' = Inr u2
                              \<and> val v3 ''PIM'' = Inr u3")
      case False
      with a Some show ?thesis
        by (auto simp: set_notas_def split: sum.splits)
    next
      case True
      then obtain u1 u2 u3 where
        v: "val v1 ''NP1'' = Inr u1" "val v2 ''NP2'' = Inr u2" "val v3 ''PIM'' = Inr u3"
        by blast
      obtain a1 where a1: "set_field v1 (\<lambda>x a. a\<lparr>np1 := x\<rparr>) aluno = Inr a1"
        using set_field_after_val [OF v(1)] by blast
      obtain a2 where a2: "set_field v2 (\<lambda>x a. a\<lparr>np2 := x\<rparr>) a1 = Inr a2"
        using set_field_after_val [OF v(2)] by blast
      obtain a3 where a3: "set_field v3 (\<lambda>x a. a\<lparr>pim := x\<rparr>) a2 = Inr a3"
        using set_field_after_val [OF v(3)] by blast
      from a Some v a1 a2 a3 show ?thesis
        by (simp add: set_notas_def Let_def)
    qed
  qed
qed

text \<open>
  C7. \<open>add_aluno\<close> with an RA that is already a key of \<open>alunos\<close> raises
  \<open>ValueError("RA ja cadastrado.")\<close>, the duplicate-key error, and the world after the
  call is the world before it: the same store, the same file content, no write.
\<close>

theorem add_aluno_duplicate:
  "has_key (alunos (db w)) (ra aluno) \<Longrightarrow>
   add_aluno w aluno = (w, Inl (ValueError ''RA ja cadastrado.''))"
  by (simp add: add_aluno_def)

theorem add_aluno_duplicate_witness:
  "has_key (alunos (db ex_world)) (ra ex_aluno) \<and>
   add_aluno ex_world ex_aluno = (ex_world, Inl (ValueError ''RA ja cadastrado.''))"
proof -
  have h: "has_key (alunos (db ex_world)) (ra ex_aluno)"
    by (simp add: ex_world_def ex_store_def ex_aluno_def has_key_def)
  from h add_aluno_duplicate [OF h] show ?thesis by simp
qed

text \<open>
  C10. Whenever one of the methods that change the store raises, the world after the
  call is the world before it (the store, the file content and the number of writes);
  \<open>add_atividade\<close> never raises. For \<open>set_notas\<close> this covers both the validation of
  the three fields and the assignments that follow it.
\<close>

theorem failed_call_leaves_world:
  "(add_aluno w a = (w', Inl e) \<longrightarrow> w' = w) \<and>
   (add_turma w t = (w', Inl e) \<longrightarrow> w' = w) \<and>
   (add_aluno_to_turma w c r = (w', Inl e) \<longrightarrow> w' = w) \<and>
   snd (add_atividade w atv) \<noteq> Inl e \<and>
   (add_entrega w i r f = (w', Inl e) \<longrightarrow> w' = w) \<and>
   (set_nota_entrega w i r n = (w', Inl e) \<longrightarrow> w' = w) \<and>
   (set_notas w r v1 v2 v3 = (w', Inl e) \<longrightarrow> w' = w)"
proof (intro conjI impI)
  show "snd (add_atividade w atv) \<noteq> Inl e" by (rule add_atividade_ok)
qed (erule add_aluno_fail add_turma_fail add_aluno_to_turma_fail add_entrega_fail
      set_nota_entrega_fail set_notas_fail)+

theorem failed_call_leaves_world_witness:
  "add_aluno ex_world ex_aluno = (ex_world, Inl (ValueError ''RA ja cadastrado.'')) \<and>
   add_turma ex_world ex_turma = (ex_world, Inl (ValueError ''Turma ja cadastrada.'')) \<and>
   add_aluno_to_turma ex_world ''T1'' ''RA9''
     = (ex_world, Inl (ValueError ''Aluno (RA) nao encontrado.'')) \<and>
   add_entrega ex_world 9 ''RA1'' ''x.pdf''
     = (ex_world, Inl (ValueError ''Atividade nao encontrada.'')) \<and>
   set_nota_entrega ex_world 1 ''RA1'' (JFloat (Fin (21 / 2)))
     = (ex_world, Inl (ValueError ''Nota deve estar entre 0 e 10.'')) \<and>
   set_notas ex_world ''RA1'' (JFloat (Fin 9)) (JFloat (Fin (21 / 2))) JNull
     = (ex_world, Inl (ValueError ''NP2 deve estar entre 0 e 10.''))"
proof -
  note ev = ex_defs has_key_def dict_get_def get_turma_def get_atividade_def
  have "snd (add_aluno ex_world ex_aluno) = Inl (ValueError ''RA ja cadastrado.'')"
    by (simp add: add_aluno_def ev)
  from pair_fst_snd [OF this]
    failed_call_leaves_world [where w = ex_world and a = ex_aluno
      and w' = "fst (add_aluno ex_world ex_aluno)" and e = "ValueError ''RA ja cadastrado.''"]
  have 1: "add_aluno ex_world ex_aluno = (ex_world, Inl (ValueError ''RA ja cadastrado.''))"
    by simp
  have "snd (add_turma ex_world ex_turma) = Inl (ValueError ''Turma ja cadastrada.'')"
    by (simp add: add_turma_def ev)
  from pair_fst_snd [OF this]
    failed_call_leaves_world [where w = ex_world and t = ex_turma
      and w' = "fst (add_turma ex_world ex_turma)" and e = "ValueError ''Turma ja cadastrada.''"]
  have 2: "add_turma ex_world ex_turma = (ex_world, Inl (ValueError ''Turma ja cadastrada.''))"
    by simp
  have "snd (add_aluno_to_turma ex_world ''T1'' ''RA9'')
          = Inl (ValueError ''Aluno (RA) nao encontrado.'')"
    by (simp add: add_aluno_to_turma_def ev)
  from pair_fst_snd [OF this]
    failed_call_leaves_world [where w = ex_world and c = "''T1''" and r = "''RA9''"
      and w' = "fst (add_aluno_to_turma ex_world ''T1'' ''RA9'')"
      and e = "ValueError ''Aluno (RA) nao encontrado.''"]
  have 3: "add_aluno_to_turma ex_world ''T1'' ''RA9''
             = (ex_world, Inl (ValueError ''Aluno (RA) nao encontrado.''))"
    by simp
  have "snd (add_entrega ex_world 9 ''RA1'' ''x.pdf'')
          = Inl (ValueError ''Atividade nao encontrada.'')"
    by (simp add: add_entrega_def ev)
  from pair_fst_snd [OF this]
    failed_call_leaves_world [where w = ex_world and i = 9 and r = "''RA1''" and f = "''x.pdf''"
      and w' = "fst (add_entrega ex_world 9 ''RA1'' ''x.pdf'')"
      and e = "ValueError ''Atividade nao encontrada.''"]
  have 4: "add_entrega ex_world 9 ''RA1'' ''x.pdf''
             = (ex_world, Inl (ValueError ''Atividade nao encontrada.''))"
    by simp
  have "snd (set_nota_entrega ex_world 1 ''RA1'' (JFloat (Fin (21 / 2))))
          = Inl (ValueError ''Nota deve estar entre 0 e 10.'')"
    by (simp add: set_nota_entrega_def ev)
  from pair_fst_snd [OF this]
    failed_call_leaves_world [where w = ex_world and i = 1 and r = "''RA1''"
      and n = "JFloat (Fin (21 / 2))"
      and w' = "fst (set_nota_entrega ex_world 1 ''RA1'' (JFloat (Fin (21 / 2))))"
      and e = "ValueError ''Nota deve estar entre 0 e 10.''"]
  have 5: "set_nota_entrega ex_world 1 ''RA1'' (JFloat (Fin (21 / 2)))
             = (ex_world, Inl (ValueError ''Nota deve estar entre 0 e 10.''))"
    by simp
  have "snd (set_notas ex_world ''RA1'' (JFloat (Fin 9)) (JFloat (Fin (21 / 2))) JNull)
          = Inl (ValueError ''NP2 deve estar entre 0 e 10.'')"
    by (simp add: set_notas_def val_def ev)
  from pair_fst_snd [OF this]
    failed_call_leaves_world [where w = ex_world and r = "''RA1''" and ?v1.0 = "JFloat (Fin 9)"
      and ?v2.0 = "JFloat (Fin (21 / 2))" and ?v3.0 = JNull
      and w' = "fst (set_notas ex_world ''RA1'' (JFloat (Fin 9)) (JFloat (Fin (21 / 2))) JNull)"
      and e = "ValueError ''NP2 deve estar entre 0 e 10.''"]
  have 6: "set_notas ex_world ''RA1'' (JFloat (Fin 9)) (JFloat (Fin (21 / 2))) JNull
             = (ex_world, Inl (ValueError ''NP2 deve estar entre 0 e 10.''))"
    by simp
  from 1 2 3 4 5 6 show ?thesis by (intro conjI)
qed

subsection \<open>Floats\<close>

lemma pow2_powi: "pow2 e = 2 powi e"
  by (simp add: pow2_def power_int_def power_one_over inverse_eq_divide)

lemma bitlen_bounds:
  "0 < i \<Longrightarrow> 1 \<le> bitlen i \<and> 2 ^ nat (bitlen i - 1) \<le> i \<and> i < 2 ^ nat (bitlen i)"
proof (induction i rule: bitlen.induct)
  case (1 i)
  show ?case
  proof (cases "i div 2 = 0")
    case True
    with "1.prems" have i1: "i = 1" by presburger
    have "bitlen 1 = 1" by (simp add: bitlen.simps [of 1] bitlen.simps [of 0])
    with i1 show ?thesis by simp
  next
    case False
    with "1.prems" have pos: "0 < i div 2" by presburger
    from "1.IH" [OF _ pos] "1.prems"
    have ih: "1 \<le> bitlen (i div 2)" "2 ^ nat (bitlen (i div 2) - 1) \<le> i div 2"
      "i div 2 < 2 ^ nat (bitlen (i div 2))"
      by simp_all
    let ?b = "bitlen (i div 2)"
    have b: "bitlen i = 1 + ?b" using "1.prems" by (subst bitlen.simps) simp
    have n1: "nat (bitlen i - 1) = Suc (nat (?b - 1))" using ih(1) b by simp
    have n2: "nat (bitlen i) = Suc (nat ?b)" using ih(1) b by simp
    have "2 * (i div 2) \<le> i" by presburger
    with ih(2) have lo: "2 ^ nat (bitlen i - 1) \<le> i" unfolding n1 by simp
    have "i < 2 * (i div 2 + 1)" by presburger
    moreover from ih(3) have "2 * (i div 2 + 1) \<le> 2 * 2 ^ nat ?b" by simp
    ultimately have hi: "i < 2 ^ nat (bitlen i)" unfolding n2 by simp
    from lo hi b ih(1) show ?thesis by simp
  qed
qed

lemma ilog2_bounds:
  assumes "0 < a"
  shows "pow2 (ilog2 a) \<le> a \<and> a < pow2 (ilog2 a + 1)"
proof -
  obtain p d where pd: "quotient_of a = (p, d)" by (cases "quotient_of a")
  then have d: "0 < d" and a: "a = of_int p / of_int d"
    by (simp_all add: quotient_of_denom_pos quotient_of_div)
  from assms a d have p: "0 < p" by (simp add: zero_less_divide_iff)
  let ?n = "bitlen p" and ?m = "bitlen d"
  from bitlen_bounds [OF p] have bp: "1 \<le> ?n" "2 ^ nat (?n - 1) \<le> p" "p < 2 ^ nat ?n" by simp_all
  from bitlen_bounds [OF d] have bd: "1 \<le> ?m" "2 ^ nat (?m - 1) \<le> d" "d < 2 ^ nat ?m" by simp_all
  have "(of_int (2 ^ nat (?n - 1)) :: rat) \<le> of_int p" using bp(2) by (simp only: of_int_le_iff)
  then have P1: "(2::rat) powi (?n - 1) \<le> of_int p" using bp(1) by (simp add: power_int_def)
  have "(of_int p :: rat) < of_int (2 ^ nat ?n)" using bp(3) by (simp only: of_int_less_iff)
  then have P2: "of_int p < (2::rat) powi ?n" using bp(1) by (simp add: power_int_def)
  have "(of_int (2 ^ nat (?m - 1)) :: rat) \<le> of_int d" using bd(2) by (simp only: of_int_le_iff)
  then have D1: "(2::rat) powi (?m - 1) \<le> of_int d" using bd(1) by (simp add: power_int_def)
  have "(of_int d :: rat) < of_int (2 ^ nat ?m)" using bd(3) by (simp only: of_int_less_iff)
  then have D2: "of_int d < (2::rat) powi ?m" using bd(1) by (simp add: power_int_def)
  have dpos: "(0::rat) < of_int d" using d by simp
  have lo: "(2::rat) powi (?n - ?m - 1) < a"
  proof -
    have eq1: "?n - ?m - 1 = (?n - 1) - ?m" by simp
    have "(2::rat) powi (?n - ?m - 1) = 2 powi ((?n - 1) - ?m)"
      by (simp only: eq1)
    also have "\<dots> = 2 powi (?n - 1) / 2 powi ?m"
      by (rule power_int_diff) simp
    also have "\<dots> \<le> of_int p / 2 powi ?m"
      using P1 by (simp add: divide_right_mono)
    also have "\<dots> < of_int p / of_int d"
      using D2 dpos p by (simp add: divide_strict_left_mono)
    finally show ?thesis by (simp add: a)
  qed
  have hi: "a < (2::rat) powi (?n - ?m + 1)"
  proof -
    have "a = of_int p / of_int d" by (rule a)
    also have "\<dots> < 2 powi ?n / of_int d"
      using P2 dpos by (simp add: divide_strict_right_mono)
    also have "\<dots> \<le> 2 powi ?n / 2 powi (?m - 1)"
      using D1 by (intro frac_le) simp_all
    also have "\<dots> = 2 powi (?n - (?m - 1))"
      by (rule power_int_diff [symmetric]) simp
    also have "?n - (?m - 1) = ?n - ?m + 1" by simp
    finally show ?thesis .
  qed
  show ?thesis
    using lo hi by (auto simp: ilog2_def pd Let_def pow2_powi not_le algebra_simps)
qed

text \<open>Rounding to an integer: one of the two neighbours, a nearest one.\<close>

lemma rhe_cases: "rhe a = \<lfloor>a\<rfloor> \<or> rhe a = \<lfloor>a\<rfloor> + 1"
  by (simp add: rhe_def Let_def)

lemma rhe_nearest: "\<bar>of_int (rhe a) - a\<bar> \<le> 1 / 2"
proof -
  define d where "d = a - of_int \<lfloor>a\<rfloor>"
  have d: "0 \<le> d" "d < 1" unfolding d_def by linarith+
  have a: "a = of_int \<lfloor>a\<rfloor> + d" by (simp add: d_def)
  consider "d < 1 / 2" | "1 / 2 < d" | "d = 1 / 2" by linarith
  then show ?thesis
  proof cases
    case 1
    then have "rhe a = \<lfloor>a\<rfloor>" by (simp add: rhe_def Let_def d_def)
    with 1 d show ?thesis by (simp add: d_def)
  next
    case 2
    then have "rhe a = \<lfloor>a\<rfloor> + 1" by (simp add: rhe_def Let_def d_def)
    then have "of_int (rhe a) - a = 1 - d" by (simp add: d_def)
    with 2 d show ?thesis by simp
  next
    case 3
    from rhe_cases [of a] show ?thesis
    proof
      assume "rhe a = \<lfloor>a\<rfloor>"
      then have "of_int (rhe a) - a = - d" by (simp add: d_def)
      with 3 show ?thesis by simp
    next
      assume "rhe a = \<lfloor>a\<rfloor> + 1"
      then have "of_int (rhe a) - a = 1 - d" by (simp add: d_def)
      with 3 show ?thesis by simp
    qed
  qed
qed

lemma rhe_range:
  assumes "0 \<le> a" and "a \<le> 10"
  shows "0 \<le> rhe a \<and> rhe a \<le> 10"
proof -
  from assms have f: "0 \<le> \<lfloor>a\<rfloor>" "\<lfloor>a\<rfloor> \<le> 10" by (simp_all add: floor_le_iff le_floor_iff)
  show ?thesis
  proof (cases "\<lfloor>a\<rfloor> = 10")
    case True
    then have "of_int \<lfloor>a\<rfloor> = (10::rat)" by simp
    moreover have "of_int \<lfloor>a\<rfloor> \<le> a" by linarith
    ultimately have "a = 10" using assms(2) by linarith
    then show ?thesis by (simp add: rhe_def Let_def)
  next
    case False
    with f(2) have "\<lfloor>a\<rfloor> \<le> 9" by linarith
    with f(1) rhe_cases [of a] show ?thesis by (elim disjE) linarith+
  qed
qed

lemma rhe_le: "rhe x \<le> \<lfloor>x\<rfloor> + 1" and rhe_ge: "\<lfloor>x\<rfloor> \<le> rhe x"
  using rhe_cases [of x] by auto

lemma pow2_pos: "0 < pow2 e"
  by (simp add: pow2_powi)

lemma pow2_add: "pow2 (a + b) = pow2 a * pow2 b"
  by (simp add: pow2_powi power_int_add)

lemma pow2_mono: "a \<le> b \<Longrightarrow> pow2 a \<le> pow2 b"
  by (simp add: pow2_powi power_int_increasing)

lemma pow2_nat: "0 \<le> n \<Longrightarrow> pow2 n = 2 ^ nat n"
  by (simp add: pow2_def)

text \<open>
  The overflow test of \<open>fl\<close> is that of the rounded magnitude against \<open>2 ^ 1024\<close>:
  the rounded significand is at most \<open>2 ^ 53\<close>, and at least \<open>2 ^ 52\<close> above the
  subnormal range.
\<close>

lemma fl_significand:
  assumes "0 < a"
  defines "e \<equiv> max (ilog2 a - 52) (- 1074)"
  defines "m \<equiv> rhe (a / pow2 e)"
  shows "m \<le> 2 ^ 53" and "- 1074 < e \<Longrightarrow> 2 ^ 52 \<le> m"
proof -
  note b = ilog2_bounds [OF assms(1)]
  have "ilog2 a + 1 \<le> e + 53" by (simp add: e_def)
  then have "pow2 (ilog2 a + 1) \<le> pow2 (e + 53)" by (rule pow2_mono)
  with b have "a < pow2 e * pow2 53" by (simp add: pow2_add)
  then have "a / pow2 e < pow2 53" using pow2_pos [of e] by (simp add: pos_divide_less_eq mult.commute)
  then have "a / pow2 e < of_int (2 ^ 53)" by (simp add: pow2_def)
  then have "\<lfloor>a / pow2 e\<rfloor> < 2 ^ 53" by (simp only: floor_less_iff)
  with rhe_le [of "a / pow2 e"] show "m \<le> 2 ^ 53" unfolding m_def by linarith
  assume "- 1074 < e"
  then have "e = ilog2 a - 52" by (simp add: e_def max_def split: if_splits)
  then have "ilog2 a = e + 52" by simp
  with b have "pow2 e * pow2 52 \<le> a" by (simp add: pow2_add)
  then have "pow2 52 \<le> a / pow2 e" using pow2_pos [of e] by (simp add: pos_le_divide_eq mult.commute)
  then have "of_int (2 ^ 52) \<le> a / pow2 e" by (simp add: pow2_def)
  then have "2 ^ 52 \<le> \<lfloor>a / pow2 e\<rfloor>" by (simp only: le_floor_iff)
  with rhe_ge [of "a / pow2 e"] show "2 ^ 52 \<le> m" unfolding m_def by linarith
qed

lemma fl_overflow_iff:
  assumes "0 < a"
  defines "e \<equiv> max (ilog2 a - 52) (- 1074)"
  defines "m \<equiv> rhe (a / pow2 e)"
  shows "(971 < e \<or> (e = 971 \<and> 2 ^ 53 \<le> m)) \<longleftrightarrow> pow2 1024 \<le> of_int m * pow2 e"
proof -
  note s = fl_significand [OF assms(1), folded e_def m_def]
  have m0: "(0::rat) \<le> of_int m"
  proof (cases "- 1074 < e")
    case True
    from s(2) [OF this] have "0 \<le> m" by simp
    then show ?thesis by simp
  next
    case False
    have "0 \<le> a / pow2 e" using assms(1) pow2_pos [of e] by simp
    then have "0 \<le> \<lfloor>a / pow2 e\<rfloor>" by simp
    with rhe_ge [of "a / pow2 e"] have "0 \<le> m" unfolding m_def by linarith
    then show ?thesis by simp
  qed
  have m53: "(of_int m :: rat) \<le> pow2 53"
  proof -
    from s(1) have "(of_int m :: rat) \<le> of_int (2 ^ 53)" by (simp only: of_int_le_iff)
    then show ?thesis by (simp add: pow2_def)
  qed
  show ?thesis
  proof
    assume "971 < e \<or> (e = 971 \<and> 2 ^ 53 \<le> m)"
    then show "pow2 1024 \<le> of_int m * pow2 e"
    proof
      assume e: "971 < e"
      then have "- 1074 < e" by simp
      from s(2) [OF this] have "(of_int (2 ^ 52) :: rat) \<le> of_int m" by (simp only: of_int_le_iff)
      then have m52: "pow2 52 \<le> of_int m" by (simp add: pow2_def)
      from e have "pow2 972 \<le> pow2 e" by (intro pow2_mono) simp
      with m52 have "pow2 52 * pow2 972 \<le> of_int m * pow2 e"
        using pow2_pos [of 52] pow2_pos [of 972] by (intro mult_mono) simp_all
      moreover have "pow2 52 * pow2 972 = pow2 1024" by (simp add: pow2_add [symmetric])
      ultimately show ?thesis by simp
    next
      assume "e = 971 \<and> 2 ^ 53 \<le> m"
      then have e: "e = 971" and "(of_int (2 ^ 53) :: rat) \<le> of_int m"
        by (simp_all only: of_int_le_iff)
      then have "pow2 53 \<le> of_int m" by (simp add: pow2_def)
      then have "pow2 53 * pow2 971 \<le> of_int m * pow2 971"
        using pow2_pos [of 971] by (intro mult_right_mono) simp_all
      moreover have "pow2 53 * pow2 971 = pow2 1024" by (simp add: pow2_add [symmetric])
      ultimately show ?thesis by (simp add: e)
    qed
  next
    assume big: "pow2 1024 \<le> of_int m * pow2 e"
    show "971 < e \<or> (e = 971 \<and> 2 ^ 53 \<le> m)"
    proof (rule ccontr)
      assume n: "\<not> (971 < e \<or> (e = 971 \<and> 2 ^ 53 \<le> m))"
      show False
      proof (cases "e = 971")
        case True
        with n have "m < 2 ^ 53" by simp
        then have "(of_int m :: rat) < of_int (2 ^ 53)" by (simp only: of_int_less_iff)
        then have "of_int m < pow2 53" by (simp add: pow2_def)
        then have "of_int m * pow2 971 < pow2 53 * pow2 971"
          using pow2_pos [of 971] by (intro mult_strict_right_mono) simp_all
        moreover have "pow2 53 * pow2 971 = pow2 1024" by (simp add: pow2_add [symmetric])
        ultimately show False using big True by simp
      next
        case False
        with n have "e \<le> 970" by simp
        then have "pow2 e \<le> pow2 970" by (rule pow2_mono)
        with m53 m0 have "of_int m * pow2 e \<le> pow2 53 * pow2 970"
          using pow2_pos [of e] by (intro mult_mono) simp_all
        moreover have "pow2 53 * pow2 970 = pow2 1023" by (simp add: pow2_add [symmetric])
        moreover have "pow2 1023 < pow2 1024"
          by (simp add: pow2_powi power_int_strict_increasing)
        ultimately show False using big by simp
      qed
    qed
  qed
qed

text \<open>
  Some values, to be compared with Python: \<open>0.1\<close>, \<open>0.1 + 0.2\<close> (which is
  \<open>0.30000000000000004\<close>), \<open>round(2.675, 2)\<close> (which is \<open>2.67\<close>) and
  \<open>float("7.4")\<close>.
\<close>

lemma fl_exemplos:
  "fl (1 / 10) = Fin (3602879701896397 / 36028797018963968) \<and>
   fadd (Fin (3602879701896397 / 36028797018963968)) (Fin (3602879701896397 / 18014398509481984))
     = Fin (1351079888211149 / 4503599627370496) \<and>
   py_round2 (Fin (3011782250804019 / 1125899906842624)) = Fin (1503076375634903 / 562949953421312) \<and>
   python_float (JStr ''7.4'') = Inr (Fin (4165829655317709 / 562949953421312))"
  by code_simp

lemma fl_finite:
  assumes "\<bar>q\<bar> < 2 ^ 1023"
  shows "\<exists>r. fl q = Fin r"
proof (cases "q = 0")
  case True
  then show ?thesis by (simp add: fl_def)
next
  case False
  then have pos: "0 < \<bar>q\<bar>" by simp
  from ilog2_bounds [OF pos] assms have "(2::rat) powi (ilog2 \<bar>q\<bar>) < 2 powi 1023"
    by (simp add: pow2_powi)
  then have "ilog2 \<bar>q\<bar> < 1023"
    by (rule power_int_le_imp_less_exp [rotated]) simp_all
  then have lt: "ilog2 \<bar>q\<bar> < 1023" .
  show ?thesis
  proof (cases "0 < q")
    case True
    with lt have "ilog2 q < 1023" by simp
    then have "\<not> 971 < max (ilog2 q - 52) (- 1074)" "max (ilog2 q - 52) (- 1074) \<noteq> 971"
      by simp_all
    then show ?thesis using True by (simp add: fl_def Let_def)
  next
    case neg: False
    with lt False have "ilog2 (- q) < 1023" by (simp add: abs_if)
    then have "\<not> 971 < max (ilog2 (- q) - 52) (- 1074)"
      "max (ilog2 (- q) - 52) (- 1074) \<noteq> 971"
      by simp_all
    then show ?thesis using neg False by (simp add: fl_def Let_def)
  qed
qed

lemma int_truediv_finite:
  assumes "b \<noteq> 0" and "\<bar>a\<bar> < 2 ^ 1023"
  shows "int_truediv a b = Inr (fl (of_int a / of_int b))"
proof -
  have "\<bar>of_int a / of_int b :: rat\<bar> \<le> \<bar>of_int a\<bar>"
  proof -
    from assms(1) have "1 \<le> \<bar>b\<bar>" by linarith
    then have "(of_int 1 :: rat) \<le> of_int \<bar>b\<bar>" by (simp only: of_int_le_iff)
    then have "1 \<le> \<bar>of_int b :: rat\<bar>" by simp
    then show ?thesis
      by (simp add: abs_divide divide_le_eq_1 le_divide_eq_1 mult_le_cancel_left1 pos_divide_le_eq)
  qed
  also have "\<dots> < 2 ^ 1023" using assms(2)
    by (metis of_int_abs of_int_less_iff of_int_numeral of_int_power)
  finally obtain r where "fl (of_int a / of_int b) = Fin r" using fl_finite by blast
  then show ?thesis using assms(1) by (simp add: int_truediv_def)
qed



subsection \<open>Grades and status of a student\<close>

text \<open>
  C1. For a student in the store, \<open>get_notas\<close> gives
  \<open>media = round((np1*4 + np2*4 + pim*2) / 10, 2)\<close> and \<open>situacao = "Aprovado"\<close>
  when \<open>media >= 7.0\<close>, \<open>"Reprovado"\<close> otherwise, when the three grades are present;
  when one of them is absent, \<open>media\<close> is absent and \<open>situacao\<close> is \<open>"Sem notas"\<close>.
\<close>

theorem get_notas_media_situacao:
  assumes "dict_get (alunos s) r = Some aluno"
  shows "(np1 aluno = Some x \<and> np2 aluno = Some y \<and> pim aluno = Some z \<longrightarrow>
            get_notas s r =
              Some \<lparr>np1_v = Some x, np2_v = Some y, pim_v = Some z,
                    media = Some (py_round2 (fdiv (fadd (fadd (fmul x (Fin 4)) (fmul y (Fin 4)))
                                                         (fmul z (Fin 2))) (Fin 10))),
                    situacao =
                      (if fle (Fin 7) (py_round2 (fdiv (fadd (fadd (fmul x (Fin 4)) (fmul y (Fin 4)))
                                                             (fmul z (Fin 2))) (Fin 10)))
                       then ''Aprovado'' else ''Reprovado'')\<rparr>) \<and>
         (np1 aluno = None \<or> np2 aluno = None \<or> pim aluno = None \<longrightarrow>
            get_notas s r =
              Some \<lparr>np1_v = np1 aluno, np2_v = np2 aluno, pim_v = pim aluno,
                    media = None, situacao = ''Sem notas''\<rparr>)"
  using assms by (auto simp: get_notas_def Let_def split: option.splits)

lemma media_8_6_10:
  "py_round2 (fdiv (fadd (fadd (fmul (Fin 8) (Fin 4)) (fmul (Fin 6) (Fin 4))) (fmul (Fin 10) (Fin 2))) (Fin 10))
     = Fin (4278419646001971 / 562949953421312)"
  by code_simp

lemma media_5_5_5:
  "py_round2 (fdiv (fadd (fadd (fmul (Fin 5) (Fin 4)) (fmul (Fin 5) (Fin 4))) (fmul (Fin 5) (Fin 2))) (Fin 10))
     = Fin 5"
  by code_simp

theorem get_notas_media_situacao_witness:
  "get_notas ex_store ''RA1'' =
     Some \<lparr>np1_v = Some (Fin 8), np2_v = Some (Fin 6), pim_v = Some (Fin 10),
           media = Some (Fin (4278419646001971 / 562949953421312)), situacao = ''Aprovado''\<rparr> \<and>
   get_notas ex_store ''RA3'' =
     Some \<lparr>np1_v = Some (Fin 5), np2_v = Some (Fin 5), pim_v = Some (Fin 5),
           media = Some (Fin 5), situacao = ''Reprovado''\<rparr> \<and>
   get_notas ex_store ''RA2'' =
     Some \<lparr>np1_v = Some (Fin 5), np2_v = None, pim_v = None,
           media = None, situacao = ''Sem notas''\<rparr>"
proof -
  let ?a1 = "\<lparr>nome = ''Ana'', ra = ''RA1'', curso = ''ADS'',
               np1 = Some (Fin 8), np2 = Some (Fin 6), pim = Some (Fin 10)\<rparr>"
  let ?a2 = "\<lparr>nome = ''Bia'', ra = ''RA2'', curso = ''ADS'',
               np1 = Some (Fin 5), np2 = None, pim = None\<rparr>"
  let ?a3 = "\<lparr>nome = ''Caio'', ra = ''RA3'', curso = ''ADS'',
               np1 = Some (Fin 5), np2 = Some (Fin 5), pim = Some (Fin 5)\<rparr>"
  have h1: "dict_get (alunos ex_store) ''RA1'' = Some ?a1"
    and h2: "dict_get (alunos ex_store) ''RA2'' = Some ?a2"
    and h3: "dict_get (alunos ex_store) ''RA3'' = Some ?a3"
    by (simp_all add: ex_store_def dict_get_def)
  from get_notas_media_situacao [OF h1, of "Fin 8" "Fin 6" "Fin 10"]
  have 1: "get_notas ex_store ''RA1'' =
     Some \<lparr>np1_v = Some (Fin 8), np2_v = Some (Fin 6), pim_v = Some (Fin 10),
           media = Some (Fin (4278419646001971 / 562949953421312)), situacao = ''Aprovado''\<rparr>"
    by (simp add: media_8_6_10 del: fmul.simps fadd.simps fdiv.simps py_round2.simps)
  from get_notas_media_situacao [OF h3, of "Fin 5" "Fin 5" "Fin 5"]
  have 3: "get_notas ex_store ''RA3'' =
     Some \<lparr>np1_v = Some (Fin 5), np2_v = Some (Fin 5), pim_v = Some (Fin 5),
           media = Some (Fin 5), situacao = ''Reprovado''\<rparr>"
    by (simp add: media_5_5_5 del: fmul.simps fadd.simps fdiv.simps py_round2.simps)
  from get_notas_media_situacao [OF h2]
  have 2: "get_notas ex_store ''RA2'' =
     Some \<lparr>np1_v = Some (Fin 5), np2_v = None, pim_v = None,
           media = None, situacao = ''Sem notas''\<rparr>"
    by simp
  from 1 2 3 show ?thesis by simp
qed

subsection \<open>The report of a class\<close>

lemma items_sem_alunos:
  "alunos_t turma = [] \<Longrightarrow>
   map_err (item_da_atividade turma) ativs =
     Inr (map (\<lambda>atv. \<lparr>id_r = id_a atv, titulo_r = titulo atv,
                         data_entrega_r = data_entrega atv,
                         total_entregas = int (length (entregas atv)),
                         percentual_entregas = Fin 0\<rparr>) ativs)"
  by (induction ativs) (simp_all add: item_da_atividade_def Let_def)

text \<open>
  C9. For an existing class without students, \<open>relatorio_turma\<close> returns the report
  in which every assignment of the class has the percentage \<open>0.0\<close>; no division by
  the number of students is made. The mean over the assignments is a division of two
  \<open>int\<close>s, which Python refuses when the quotient exceeds the floats, so the total
  number of submissions is taken below \<open>2 ^ 1023\<close>. For an existing class without
  assignments the mean is \<open>0.0\<close>.
\<close>

theorem relatorio_turma_sem_divisao_por_zero:
  assumes "get_turma s c = Some turma"
  shows "(alunos_t turma = [] \<and>
          sum_list (map (\<lambda>atv. int (length (entregas atv))) (atividades_da_turma s c)) < 2 ^ 1023 \<longrightarrow>
            relatorio_turma s c =
              Inr \<lparr>turma_r = codigo turma, nome_r = nome_t turma, total_alunos = 0,
                   total_atividades = int (length (atividades_da_turma s c)),
                   atividades_r =
                     map (\<lambda>atv. \<lparr>id_r = id_a atv, titulo_r = titulo atv,
                                   data_entrega_r = data_entrega atv,
                                   total_entregas = int (length (entregas atv)),
                                   percentual_entregas = Fin 0\<rparr>)
                         (atividades_da_turma s c),
                   media_entregas_por_atividade =
                     (if atividades_da_turma s c = [] then Fin 0
                      else py_round2
                             (fl (of_int (sum_list (map (\<lambda>atv. int (length (entregas atv)))
                                                        (atividades_da_turma s c)))
                                  / of_int (int (length (atividades_da_turma s c))))))\<rparr>) \<and>
         (atividades_da_turma s c = [] \<longrightarrow>
            relatorio_turma s c =
              Inr \<lparr>turma_r = codigo turma, nome_r = nome_t turma,
                   total_alunos = int (length (alunos_t turma)), total_atividades = 0,
                   atividades_r = [], media_entregas_por_atividade = Fin 0\<rparr>)"
proof (intro conjI impI)
  let ?ativs = "atividades_da_turma s c"
  let ?soma = "sum_list (map (\<lambda>atv. int (length (entregas atv))) ?ativs)"
  assume "alunos_t turma = [] \<and> ?soma < 2 ^ 1023"
  then have vazio: "alunos_t turma = []" and lim: "?soma < 2 ^ 1023" by simp_all
  have "0 \<le> ?soma" by (rule sum_list_nonneg) auto
  with lim have abs: "\<bar>?soma\<bar> < 2 ^ 1023" by simp
  show "relatorio_turma s c =
              Inr \<lparr>turma_r = codigo turma, nome_r = nome_t turma, total_alunos = 0,
                   total_atividades = int (length ?ativs),
                   atividades_r =
                     map (\<lambda>atv. \<lparr>id_r = id_a atv, titulo_r = titulo atv,
                                   data_entrega_r = data_entrega atv,
                                   total_entregas = int (length (entregas atv)),
                                   percentual_entregas = Fin 0\<rparr>) ?ativs,
                   media_entregas_por_atividade =
                     (if ?ativs = [] then Fin 0
                      else py_round2 (fl (of_int ?soma / of_int (int (length ?ativs)))))\<rparr>"
  proof (cases "?ativs = []")
    case True
    with assms vazio show ?thesis
      by (simp add: relatorio_turma_def atividades_da_turma_def)
  next
    case False
    then have "int (length ?ativs) \<noteq> 0" by simp
    from int_truediv_finite [OF this abs] False assms vazio show ?thesis
      by (simp add: relatorio_turma_def Let_def items_sem_alunos
            atividades_da_turma_def [symmetric])
  qed
next
  assume "atividades_da_turma s c = []"
  with assms show "relatorio_turma s c =
              Inr \<lparr>turma_r = codigo turma, nome_r = nome_t turma,
                   total_alunos = int (length (alunos_t turma)), total_atividades = 0,
                   atividades_r = [], media_entregas_por_atividade = Fin 0\<rparr>"
    by (simp add: relatorio_turma_def atividades_da_turma_def)
qed

theorem relatorio_turma_sem_divisao_por_zero_witness:
  "relatorio_turma ex_store ''T0'' =
     Inr \<lparr>turma_r = ''T0'', nome_r = ''ADS 0'', total_alunos = 0, total_atividades = 1,
          atividades_r =
            [\<lparr>id_r = 2, titulo_r = ''Atv 2'', data_entrega_r = ''2025-12-05'',
              total_entregas = 1, percentual_entregas = Fin 0\<rparr>],
          media_entregas_por_atividade = Fin 1\<rparr> \<and>
   relatorio_turma ex_store ''T2'' =
     Inr \<lparr>turma_r = ''T2'', nome_r = ''ADS 2'', total_alunos = 1, total_atividades = 0,
          atividades_r = [], media_entregas_por_atividade = Fin 0\<rparr>"
proof -
  have t0: "get_turma ex_store ''T0'' = Some \<lparr>codigo = ''T0'', nome_t = ''ADS 0'', alunos_t = []\<rparr>"
    and t2: "get_turma ex_store ''T2'' =
               Some \<lparr>codigo = ''T2'', nome_t = ''ADS 2'', alunos_t = [''RA1'']\<rparr>"
    by (simp_all add: get_turma_def dict_get_def ex_store_def)
  have a0: "atividades_da_turma ex_store ''T0'' =
              [\<lparr>id_a = 2, turma_codigo = ''T0'', titulo = ''Atv 2'', data_entrega = ''2025-12-05'',
                entregas = [(''RA1'', [(''arquivo'', JStr ''b1.pdf'')])]\<rparr>]"
    and a2: "atividades_da_turma ex_store ''T2'' = []"
    by (simp_all add: atividades_da_turma_def ex_store_def)
  have m: "py_round2 (fl 1) = Fin 1" by code_simp
  from relatorio_turma_sem_divisao_por_zero [OF t0] have
    "relatorio_turma ex_store ''T0'' =
     Inr \<lparr>turma_r = ''T0'', nome_r = ''ADS 0'', total_alunos = 0, total_atividades = 1,
          atividades_r =
            [\<lparr>id_r = 2, titulo_r = ''Atv 2'', data_entrega_r = ''2025-12-05'',
              total_entregas = 1, percentual_entregas = Fin 0\<rparr>],
          media_entregas_por_atividade = Fin 1\<rparr>"
    by (simp add: a0 m del: py_round2.simps)
  moreover from relatorio_turma_sem_divisao_por_zero [OF t2] have
    "relatorio_turma ex_store ''T2'' =
     Inr \<lparr>turma_r = ''T2'', nome_r = ''ADS 2'', total_alunos = 1, total_atividades = 0,
          atividades_r = [], media_entregas_por_atividade = Fin 0\<rparr>"
    by (simp add: a2)
  ultimately show ?thesis by simp
qed

subsection \<open>Submissions\<close>

lemma dict_get_Nil: "dict_get [] k = None"
  by (simp add: dict_get_def)

lemma dict_get_Cons: "dict_get ((k, v) # d) k' = (if k' = k then Some v else dict_get d k')"
  by (simp add: dict_get_def)

lemma db_save [simp]: "db (save w) = db w"
  by (simp add: save_def)

lemma get_atividade_put:
  "get_atividade (db (put_atividade w i a)) j = (if j = i then Some a else get_atividade (db w) j)"
  by (simp add: get_atividade_def put_atividade_def dict_get_dict_set)

lemma db_put_atividade [simp]:
  "alunos (db (put_atividade w i a)) = alunos (db w)"
  "turmas (db (put_atividade w i a)) = turmas (db w)"
  "next_atv_id (db (put_atividade w i a)) = next_atv_id (db w)"
  by (simp_all add: put_atividade_def)

lemma campo_entrega_set:
  "campo_entrega (atv\<lparr>entregas := dict_set (entregas atv) r
       (dict_set (case dict_get (entregas atv) r of None \<Rightarrow> [] | Some p \<Rightarrow> p) c v)\<rparr>) r k
     = (if k = c then v else campo_entrega atv r k)"
  by (cases "dict_get (entregas atv) r")
     (simp_all add: campo_entrega_def payload_get_def dict_get_dict_set dict_get_Nil
        dict_get_Cons)

text \<open>
  C3. For an existing assignment and an existing student, \<open>add_entrega\<close> succeeds and
  changes only the key \<open>arquivo\<close> of the submission of that student: every other key
  of the submission, the grade among them, the submissions of the other students, the
  other fields of the assignment, the other assignments, the students, the classes
  and the counter are as before. \<open>set_nota_entrega\<close> with a grade that it accepts does
  the same for the key \<open>nota\<close>, so the file reference stays.
\<close>

theorem entrega_arquivo_e_nota_independentes:
  assumes "get_atividade (db w) i = Some atv" and "has_key (alunos (db w)) r"
  shows "(let out = add_entrega w i r arquivo; w' = fst out; atv' = projr (snd out)
          in \<not> isl (snd out) \<and>
             get_atividade (db w') i = Some atv' \<and>
             campo_entrega atv' r ''arquivo'' = JStr arquivo \<and>
             (\<forall>k. k \<noteq> ''arquivo'' \<longrightarrow> campo_entrega atv' r k = campo_entrega atv r k) \<and>
             (\<forall>r'. r' \<noteq> r \<longrightarrow> dict_get (entregas atv') r' = dict_get (entregas atv) r') \<and>
             atv'\<lparr>entregas := entregas atv\<rparr> = atv \<and>
             (\<forall>j. j \<noteq> i \<longrightarrow> get_atividade (db w') j = get_atividade (db w) j) \<and>
             alunos (db w') = alunos (db w) \<and> turmas (db w') = turmas (db w) \<and>
             next_atv_id (db w') = next_atv_id (db w)) \<and>
         (nota \<noteq> JNull \<and> python_float nota = Inr n \<and> \<not> flt n (Fin 0) \<and> \<not> flt (Fin 10) n \<longrightarrow>
          (let out = set_nota_entrega w i r nota; w' = fst out; atv' = projr (snd out)
           in \<not> isl (snd out) \<and>
              get_atividade (db w') i = Some atv' \<and>
              campo_entrega atv' r ''nota'' = JFloat n \<and>
              (\<forall>k. k \<noteq> ''nota'' \<longrightarrow> campo_entrega atv' r k = campo_entrega atv r k) \<and>
              (\<forall>r'. r' \<noteq> r \<longrightarrow> dict_get (entregas atv') r' = dict_get (entregas atv) r') \<and>
              atv'\<lparr>entregas := entregas atv\<rparr> = atv \<and>
              (\<forall>j. j \<noteq> i \<longrightarrow> get_atividade (db w') j = get_atividade (db w) j) \<and>
              alunos (db w') = alunos (db w) \<and> turmas (db w') = turmas (db w) \<and>
              next_atv_id (db w') = next_atv_id (db w)))"
proof (intro conjI impI)
  let ?old = "case dict_get (entregas atv) r of None \<Rightarrow> [] | Some p \<Rightarrow> p"
  let ?a1 = "atv\<lparr>entregas := dict_set (entregas atv) r (dict_set ?old ''arquivo'' (JStr arquivo))\<rparr>"
  have "add_entrega w i r arquivo = (save (put_atividade w i ?a1), Inr ?a1)"
    using assms by (simp add: add_entrega_def Let_def)
  then show "let out = add_entrega w i r arquivo; w' = fst out; atv' = projr (snd out)
          in \<not> isl (snd out) \<and>
             get_atividade (db w') i = Some atv' \<and>
             campo_entrega atv' r ''arquivo'' = JStr arquivo \<and>
             (\<forall>k. k \<noteq> ''arquivo'' \<longrightarrow> campo_entrega atv' r k = campo_entrega atv r k) \<and>
             (\<forall>r'. r' \<noteq> r \<longrightarrow> dict_get (entregas atv') r' = dict_get (entregas atv) r') \<and>
             atv'\<lparr>entregas := entregas atv\<rparr> = atv \<and>
             (\<forall>j. j \<noteq> i \<longrightarrow> get_atividade (db w') j = get_atividade (db w) j) \<and>
             alunos (db w') = alunos (db w) \<and> turmas (db w') = turmas (db w) \<and>
             next_atv_id (db w') = next_atv_id (db w)"
    by (simp add: Let_def get_atividade_put campo_entrega_set dict_get_dict_set)
next
  let ?old = "case dict_get (entregas atv) r of None \<Rightarrow> [] | Some p \<Rightarrow> p"
  let ?a1 = "atv\<lparr>entregas := dict_set (entregas atv) r (dict_set ?old ''nota'' (JFloat n))\<rparr>"
  assume "nota \<noteq> JNull \<and> python_float nota = Inr n \<and> \<not> flt n (Fin 0) \<and> \<not> flt (Fin 10) n"
  then have "set_nota_entrega w i r nota = (save (put_atividade w i ?a1), Inr ?a1)"
    using assms by (simp add: set_nota_entrega_def Let_def)
  then show "let out = set_nota_entrega w i r nota; w' = fst out; atv' = projr (snd out)
           in \<not> isl (snd out) \<and>
              get_atividade (db w') i = Some atv' \<and>
              campo_entrega atv' r ''nota'' = JFloat n \<and>
              (\<forall>k. k \<noteq> ''nota'' \<longrightarrow> campo_entrega atv' r k = campo_entrega atv r k) \<and>
              (\<forall>r'. r' \<noteq> r \<longrightarrow> dict_get (entregas atv') r' = dict_get (entregas atv) r') \<and>
              atv'\<lparr>entregas := entregas atv\<rparr> = atv \<and>
              (\<forall>j. j \<noteq> i \<longrightarrow> get_atividade (db w') j = get_atividade (db w) j) \<and>
              alunos (db w') = alunos (db w) \<and> turmas (db w') = turmas (db w) \<and>
              next_atv_id (db w') = next_atv_id (db w)"
    by (simp add: Let_def get_atividade_put campo_entrega_set dict_get_dict_set)
qed

theorem entrega_arquivo_e_nota_independentes_witness:
  "campo_entrega (projr (snd (add_entrega ex_world 1 ''RA1'' ''novo.pdf''))) ''RA1'' ''arquivo''
     = JStr ''novo.pdf'' \<and>
   campo_entrega (projr (snd (add_entrega ex_world 1 ''RA1'' ''novo.pdf''))) ''RA1'' ''nota''
     = JFloat (Fin (4165829655317709 / 562949953421312)) \<and>
   campo_entrega (projr (snd (set_nota_entrega ex_world 1 ''RA1'' (JFloat (Fin 9))))) ''RA1'' ''nota''
     = JFloat (Fin 9) \<and>
   campo_entrega (projr (snd (set_nota_entrega ex_world 1 ''RA1'' (JFloat (Fin 9))))) ''RA1''
       ''arquivo''
     = JStr ''a1.pdf''"
proof -
  let ?atv = "\<lparr>id_a = 1, turma_codigo = ''T1'', titulo = ''Atv 1'', data_entrega = ''2025-11-30'',
              entregas =
                [(''RA1'', [(''arquivo'', JStr ''a1.pdf''),
                            (''nota'', JFloat (Fin (4165829655317709 / 562949953421312)))]),
                 (''RA2'', [(''arquivo'', JStr ''a2.pdf''),
                            (''nota'', JFloat (Fin (4278419646001971 / 562949953421312)))]),
                 (''RA3'', [(''nota'', JFloat (Fin 10))])]\<rparr>"
  have h1: "get_atividade (db ex_world) 1 = Some ?atv"
    by (simp add: get_atividade_def dict_get_def ex_defs)
  have h2: "has_key (alunos (db ex_world)) ''RA1''"
    by (simp add: has_key_def ex_defs)
  have old: "campo_entrega ?atv ''RA1'' ''nota'' = JFloat (Fin (4165829655317709 / 562949953421312))"
    "campo_entrega ?atv ''RA1'' ''arquivo'' = JStr ''a1.pdf''"
    by (simp_all add: campo_entrega_def payload_get_def dict_get_def)
  have g: "JFloat (Fin 9) \<noteq> JNull \<and> python_float (JFloat (Fin 9)) = Inr (Fin 9)
           \<and> \<not> flt (Fin 9) (Fin 0) \<and> \<not> flt (Fin 10) (Fin 9)"
    by simp
  note t = entrega_arquivo_e_nota_independentes
             [OF h1 h2, of "''novo.pdf''" "JFloat (Fin 9)" "Fin 9", unfolded Let_def]
  note t1 = t [THEN conjunct1]
  note t2 = t [THEN conjunct2, rule_format, OF g]
  note 1 = t1 [THEN conjunct2, THEN conjunct2, THEN conjunct1]
  note 2 = t1 [THEN conjunct2, THEN conjunct2, THEN conjunct2, THEN conjunct1]
  note 3 = t2 [THEN conjunct2, THEN conjunct2, THEN conjunct1]
  note 4 = t2 [THEN conjunct2, THEN conjunct2, THEN conjunct2, THEN conjunct1]
  from 2 [rule_format, of "''nota''"] have 5: "campo_entrega (projr (snd (add_entrega ex_world 1 ''RA1'' ''novo.pdf''))) ''RA1''
      ''nota'' = campo_entrega ?atv ''RA1'' ''nota''"
    by simp
  from 4 [rule_format, of "''arquivo''"] have 6: "campo_entrega (projr (snd (set_nota_entrega ex_world 1 ''RA1'' (JFloat (Fin 9)))))
      ''RA1'' ''arquivo'' = campo_entrega ?atv ''RA1'' ''arquivo''"
    by simp
  show ?thesis
    by (intro conjI) (simp_all only: 1 3 5 6 old)
qed

subsection \<open>Assignment ids\<close>

lemma add_atividade_eq:
  "add_atividade w atv =
     (save (put_atividade (w\<lparr>db := (db w)\<lparr>next_atv_id := next_atv_id (db w) + 1\<rparr>\<rparr>)
              (next_atv_id (db w)) (atv\<lparr>id_a := next_atv_id (db w)\<rparr>)),
      Inr (atv\<lparr>id_a := next_atv_id (db w)\<rparr>))"
  by (simp add: add_atividade_def Let_def)

lemma next_after_add: "next_atv_id (db (fst (add_atividade w atv))) = next_atv_id (db w) + 1"
  by (simp add: add_atividade_eq)

lemma add_atividades_ids:
  "map id_a (snd (add_atividades w atvs))
     = [next_atv_id (db w) .. next_atv_id (db w) + int (length atvs) - 1]"
proof (induction atvs arbitrary: w)
  case Nil
  then show ?case by simp
next
  case (Cons atv atvs)
  let ?w1 = "fst (add_atividade w atv)"
  have n: "next_atv_id (db ?w1) = next_atv_id (db w) + 1" by (rule next_after_add)
  have "map id_a (snd (add_atividades w (atv # atvs)))
          = next_atv_id (db w) # map id_a (snd (add_atividades ?w1 atvs))"
    by (simp add: add_atividade_eq split: prod.splits)
  also have "\<dots> = next_atv_id (db w) # [next_atv_id (db w) + 1 .. next_atv_id (db w) + 1 + int (length atvs) - 1]"
    by (simp only: Cons.IH n)
  also have "\<dots> = [next_atv_id (db w) .. next_atv_id (db w) + int (length (atv # atvs)) - 1]"
    by (simp add: upto_rec1 [of "next_atv_id (db w)"] algebra_simps)
  finally show ?case .
qed

text \<open>
  C4. A store created without a file starts empty with the counter at 1, and the ids
  given by successive calls of \<open>add_atividade\<close> are \<open>1, 2, \<dots>, n\<close>, whatever the
  assignments passed (their classes included). In a store loaded from a document
  whose \<open>next_id\<close> is 5, the next assignment created gets the id 5.
\<close>

theorem add_atividade_ids_crescentes:
  "init None = Inr \<lparr>db = empty_store, data_file = None, n_writes = 0\<rparr> \<and>
   map id_a (snd (add_atividades \<lparr>db = empty_store, data_file = None, n_writes = 0\<rparr> atvs))
     = [1 .. int (length atvs)] \<and>
   (init (Some raw) = Inr w \<and> json_get raw ''next_id'' (JInt 1) = Inr (JInt 5) \<longrightarrow>
      snd (add_atividade w atv) = Inr (atv\<lparr>id_a := 5\<rparr>) \<and>
      get_atividade (db (fst (add_atividade w atv))) 5 = Some (atv\<lparr>id_a := 5\<rparr>))"
proof (intro conjI impI)
  show "init None = Inr \<lparr>db = empty_store, data_file = None, n_writes = 0\<rparr>"
    by (simp add: init_def load_def)
  show "map id_a (snd (add_atividades \<lparr>db = empty_store, data_file = None, n_writes = 0\<rparr> atvs))
          = [1 .. int (length atvs)]"
    by (simp add: add_atividades_ids empty_store_def)
next
  assume a: "init (Some raw) = Inr w \<and> json_get raw ''next_id'' (JInt 1) = Inr (JInt 5)"
  then have n: "next_atv_id (db w) = 5"
    by (auto simp: init_def load_def load_store_def bind_err_def split: sum.splits)
  then show "snd (add_atividade w atv) = Inr (atv\<lparr>id_a := 5\<rparr>)"
    by (simp add: add_atividade_eq)
  from n show "get_atividade (db (fst (add_atividade w atv))) 5 = Some (atv\<lparr>id_a := 5\<rparr>)"
    by (simp add: add_atividade_eq get_atividade_put)
qed

theorem add_atividade_ids_crescentes_witness:
  "map id_a (snd (add_atividades \<lparr>db = empty_store, data_file = None, n_writes = 0\<rparr>
      [\<lparr>id_a = 0, turma_codigo = ''T1'', titulo = ''A'', data_entrega = ''d1'', entregas = []\<rparr>,
       \<lparr>id_a = 0, turma_codigo = ''T2'', titulo = ''B'', data_entrega = ''d2'', entregas = []\<rparr>,
       \<lparr>id_a = 7, turma_codigo = ''T1'', titulo = ''C'', data_entrega = ''d3'', entregas = []\<rparr>]))
     = [1, 2, 3] \<and>
   init (Some (JObj [(''next_id'', JInt 5)]))
     = Inr \<lparr>db = \<lparr>alunos = [], turmas = [], atividades = [], next_atv_id = 5\<rparr>,
            data_file = Some (JObj [(''next_id'', JInt 5)]), n_writes = 0\<rparr> \<and>
   snd (add_atividade
          \<lparr>db = \<lparr>alunos = [], turmas = [], atividades = [], next_atv_id = 5\<rparr>,
           data_file = Some (JObj [(''next_id'', JInt 5)]), n_writes = 0\<rparr>
          \<lparr>id_a = 0, turma_codigo = ''T1'', titulo = ''A'', data_entrega = ''d1'', entregas = []\<rparr>)
     = Inr \<lparr>id_a = 5, turma_codigo = ''T1'', titulo = ''A'', data_entrega = ''d1'', entregas = []\<rparr>"
proof -
  let ?raw = "JObj [(''next_id'', JInt 5)]"
  let ?w = "\<lparr>db = \<lparr>alunos = [], turmas = [], atividades = [], next_atv_id = 5\<rparr>,
            data_file = Some ?raw, n_writes = 0\<rparr>"
  let ?a = "\<lparr>id_a = 0, turma_codigo = ''T1'', titulo = ''A'', data_entrega = ''d1'', entregas = []\<rparr>"
  let ?atvs = "[?a,
       \<lparr>id_a = 0, turma_codigo = ''T2'', titulo = ''B'', data_entrega = ''d2'', entregas = []\<rparr>,
       \<lparr>id_a = 7, turma_codigo = ''T1'', titulo = ''C'', data_entrega = ''d3'', entregas = []\<rparr>]"
  have i: "init (Some ?raw) = Inr ?w"
    by (simp add: init_def load_def load_store_def json_get_def json_items_def
          dict_of_items_def empty_store_def)
  have j: "json_get ?raw ''next_id'' (JInt 1) = Inr (JInt 5)"
    by (simp add: json_get_def)
  note t = add_atividade_ids_crescentes [of ?atvs ?raw ?w ?a]
  have u: "[1 .. int (length ?atvs)] = [1, 2, 3]" by (simp add: upto_rec1)
  from t [THEN conjunct2, THEN conjunct1] have 1:
    "map id_a (snd (add_atividades \<lparr>db = empty_store, data_file = None, n_writes = 0\<rparr> ?atvs))
       = [1, 2, 3]"
    by (simp only: u)
  from i j have "init (Some ?raw) = Inr ?w \<and> json_get ?raw ''next_id'' (JInt 1) = Inr (JInt 5)"
    by (rule conjI)
  from t [THEN conjunct2, THEN conjunct2, rule_format, OF this, THEN conjunct1]
  have 2: "snd (add_atividade ?w ?a) = Inr (?a\<lparr>id_a := 5\<rparr>)" .
  then have 3: "snd (add_atividade ?w ?a)
     = Inr \<lparr>id_a = 5, turma_codigo = ''T1'', titulo = ''A'', data_entrega = ''d1'', entregas = []\<rparr>"
    by simp
  from 1 i 3 show ?thesis by (intro conjI)
qed

subsection \<open>Saving and loading\<close>

lemma digit_char_ok:
  assumes "d < 10"
  shows "is_digit (digit_char d) \<and> digit_val (digit_char d) = d"
proof -
  from assms have "d \<in> {0, 1, 2, 3, 4, 5, 6, 7, 8, 9}" by auto
  then show ?thesis
    by (auto simp: digit_char_def is_digit_def digit_val_def)
qed

lemma is_digit_not_special:
  "is_digit c \<Longrightarrow> c \<noteq> CHR ''-'' \<and> c \<noteq> CHR ''+'' \<and> c \<noteq> CHR ''_'' \<and> \<not> is_space c"
  by (auto simp: is_digit_def is_space_def)

lemma digits_all: "\<forall>c \<in> set (digits n). is_digit c"
proof (induction n rule: digits.induct)
  case (1 n)
  then show ?case
    by (subst digits.simps) (auto simp: digit_char_ok)
qed

lemma digits_nonempty: "digits n \<noteq> []"
  by (subst digits.simps) simp

lemma foldl_digits: "foldl (\<lambda>a c. 10 * a + digit_val c) 0 (digits n) = n"
proof (induction n rule: digits.induct)
  case (1 n)
  show ?case
  proof (cases "n < 10")
    case True
    then show ?thesis by (subst digits.simps) (simp add: digit_char_ok)
  next
    case False
    with "1.IH" have "foldl (\<lambda>a c. 10 * a + digit_val c) 0 (digits (n div 10)) = n div 10"
      by simp
    with False show ?thesis
      by (subst digits.simps) (simp add: digit_char_ok)
  qed
qed

lemma py_digits_all_digits:
  "\<forall>c \<in> set s. is_digit c \<Longrightarrow>
   py_digits acc s = Some (foldl (\<lambda>a c. 10 * a + digit_val c) acc s)"
  by (induction acc s rule: py_digits.induct) simp_all

lemma digitpart_digits: "digitpart (digits n) = Some n"
proof -
  obtain c cs where s: "digits n = c # cs"
    using digits_nonempty [of n] by (cases "digits n") auto
  with digits_all [of n] have d: "is_digit c" "\<forall>x \<in> set cs. is_digit x" by auto
  have "digitpart (digits n) = Some (foldl (\<lambda>a c. 10 * a + digit_val c) 0 (digits n))"
    using d by (simp add: digitpart_def s py_digits_all_digits)
  then show ?thesis by (simp add: foldl_digits)
qed

lemma strip_id:
  assumes "s \<noteq> []" and "\<not> is_space (hd s)" and "\<not> is_space (last s)"
  shows "strip s = s"
proof -
  from assms(1,2) have 1: "dropWhile is_space s = s" by (cases s) auto
  from assms(1,3) have "dropWhile is_space (rev s) = rev s"
    by (cases "rev s") (auto simp: last_rev [symmetric] simp del: last_rev)
  with 1 show ?thesis by (simp add: strip_def)
qed

lemma signed_digitpart_digits: "signed_digitpart (digits n) = Some (int n)"
proof -
  obtain c cs where s: "digits n = c # cs"
    using digits_nonempty [of n] by (cases "digits n") auto
  from digits_all [of n] s have "is_digit c" by auto
  then have "signed_digitpart (c # cs) = map_option int (digitpart (c # cs))"
    by (simp add: signed_digitpart_def is_digit_not_special)
  with s digitpart_digits [of n] show ?thesis by simp
qed

lemma signed_digitpart_minus: "signed_digitpart (CHR ''-'' # digits n) = Some (- int n)"
  by (simp add: signed_digitpart_def digitpart_digits)

lemma strip_digits:
  "strip (digits n) = digits n"
  "strip (CHR ''-'' # digits n) = CHR ''-'' # digits n"
proof -
  from digits_all [of n] digits_nonempty [of n] have "is_digit (last (digits n))" by simp
  then have l: "\<not> is_space (last (digits n))" by (simp add: is_digit_not_special)
  from digits_all [of n] digits_nonempty [of n] have "is_digit (hd (digits n))" by simp
  then have h: "\<not> is_space (hd (digits n))" by (simp add: is_digit_not_special)
  have m: "\<not> is_space (CHR ''-'')" by (simp add: is_space_def)
  show "strip (digits n) = digits n"
    by (intro strip_id) (simp_all add: digits_nonempty l h)
  show "strip (CHR ''-'' # digits n) = CHR ''-'' # digits n"
    by (intro strip_id) (simp_all add: digits_nonempty l m)
qed

lemma int_of_str_str_of_int: "int_of_str (str_of_int i) = Some i"
  by (simp add: int_of_str_def str_of_int_def strip_digits signed_digitpart_digits
        signed_digitpart_minus)

lemma python_int_str_of_int: "python_int (JStr (str_of_int i)) = Inr i"
  by (simp add: int_of_str_str_of_int)

lemma map_err_map:
  "(\<And>x. x \<in> set xs \<Longrightarrow> f (g x) = Inr (h x)) \<Longrightarrow> map_err f (map g xs) = Inr (map h xs)"
  by (induction xs) simp_all

lemma validate_str_list_dump: "validate_str_list (Some (JList (map JStr rs))) = Inr rs"
  using map_err_map [of rs "\<lambda>x. validate_str (Some x)" JStr "\<lambda>x. x"]
  by (simp add: validate_str_list_def validate_str_def)

lemma validate_entregas_dump:
  "validate_entregas (Some (JObj (map (\<lambda>(r, p). (r, JObj p)) es))) = Inr es"
  using map_err_map [of es "\<lambda>(r, p). case p of JObj d \<Rightarrow> Inr (r, d) | _ \<Rightarrow> Inl ValidationError"
                        "\<lambda>(r, p). (r, JObj p)" "\<lambda>x. x"]
  by (simp add: validate_entregas_def split_beta)

lemma validate_opt_float_dump: "validate_opt_float (Some (dump_opt_float x)) = Inr x"
  by (cases x) (simp_all add: validate_opt_float_def dump_opt_float_def)

lemma Aluno_validate_dump: "Aluno_validate (Aluno_model_dump a) = Inr a"
  by (simp add: Aluno_validate_def Aluno_model_dump_def validate_str_def
        validate_opt_float_dump)

lemma Turma_validate_dump: "Turma_validate (Turma_model_dump t) = Inr t"
  by (simp add: Turma_validate_def Turma_model_dump_def validate_str_def
        validate_str_list_dump)

lemma Atividade_validate_dump: "Atividade_validate (Atividade_model_dump a) = Inr a"
  by (simp add: Atividade_validate_def Atividade_model_dump_def validate_str_def
        validate_int_def validate_entregas_dump)

lemma load_store_dump_store:
  assumes "chaves_distintas s"
  shows "load_store (dump_store s) = Inr s"
proof -
  have a: "map_err (\<lambda>(r, a). bind_err (Aluno_validate a) (\<lambda>x. Inr (r, x)))
             (map (\<lambda>(r, a). (r, Aluno_model_dump a)) (alunos s)) = Inr (alunos s)"
    using map_err_map [of "alunos s" "\<lambda>(r, a). bind_err (Aluno_validate a) (\<lambda>x. Inr (r, x))"
                          "\<lambda>(r, a). (r, Aluno_model_dump a)" "\<lambda>x. x"]
    by (simp add: split_beta Aluno_validate_dump)
  have t: "map_err (\<lambda>(c, t). bind_err (Turma_validate t) (\<lambda>x. Inr (c, x)))
             (map (\<lambda>(c, t). (c, Turma_model_dump t)) (turmas s)) = Inr (turmas s)"
    using map_err_map [of "turmas s" "\<lambda>(c, t). bind_err (Turma_validate t) (\<lambda>x. Inr (c, x))"
                          "\<lambda>(c, t). (c, Turma_model_dump t)" "\<lambda>x. x"]
    by (simp add: split_beta Turma_validate_dump)
  have v: "map_err (\<lambda>(i, atv). bind_err (python_int (JStr i)) (\<lambda>k.
                                bind_err (Atividade_validate atv) (\<lambda>x. Inr (k, x))))
             (map (\<lambda>(i, a). (str_of_int i, Atividade_model_dump a)) (atividades s))
           = Inr (atividades s)"
    using map_err_map [of "atividades s"
                          "\<lambda>(i, atv). bind_err (python_int (JStr i)) (\<lambda>k.
                                bind_err (Atividade_validate atv) (\<lambda>x. Inr (k, x)))"
                          "\<lambda>(i, a). (str_of_int i, Atividade_model_dump a)" "\<lambda>x. x"]
    by (simp add: split_beta Atividade_validate_dump int_of_str_str_of_int)
  from assms show ?thesis
    by (simp add: load_store_def dump_store_def json_get_def json_items_def a t v
          dict_of_items_distinct chaves_distintas_def del: python_int.simps)
       (simp add: v)
qed


text \<open>
  The condition on the keys holds in every store that \<open>DataStore()\<close> creates and is
  kept by every method.
\<close>

lemma distinct_foldl_dict_set:
  "distinct (map fst d) \<Longrightarrow> distinct (map fst (foldl (\<lambda>d (k, v). dict_set d k v) d kvs))"
  by (induction kvs arbitrary: d) (auto simp: distinct_dict_set)

lemma distinct_dict_of_items: "distinct (map fst (dict_of_items kvs))"
  by (simp add: dict_of_items_def distinct_foldl_dict_set)

lemma chaves_distintas_load_store: "load_store raw = Inr s \<Longrightarrow> chaves_distintas s"
  by (auto simp: load_store_def bind_err_def chaves_distintas_def distinct_dict_of_items
           split: sum.splits)

lemma chaves_distintas_init: "init f = Inr w \<Longrightarrow> chaves_distintas (db w)"
  by (cases f)
     (auto simp: init_def load_def bind_err_def empty_store_def chaves_distintas_def
           dest: chaves_distintas_load_store split: sum.splits)

lemma chaves_distintas_calls:
  assumes "chaves_distintas (db w)"
  shows "chaves_distintas (db (fst (add_aluno w a)))"
    and "chaves_distintas (db (fst (add_turma w t)))"
    and "chaves_distintas (db (fst (add_aluno_to_turma w c r)))"
    and "chaves_distintas (db (fst (add_atividade w atv)))"
    and "chaves_distintas (db (fst (add_entrega w i r f)))"
    and "chaves_distintas (db (fst (set_nota_entrega w i r n)))"
    and "chaves_distintas (db (fst (set_notas w r v1 v2 v3)))"
  using assms
  by (auto simp: chaves_distintas_def add_aluno_def add_turma_def add_aluno_to_turma_def
        add_atividade_def add_entrega_def set_nota_entrega_def set_notas_def Let_def
        save_def put_aluno_def put_turma_def put_atividade_def distinct_dict_set
      split: option.splits sum.splits)

text \<open>
  C5. For a store whose three dicts have distinct keys, as every Python dict has,
  loading what \<open>_save\<close> has written gives the same store: the same students, classes
  and assignments, submissions with \<open>arquivo\<close>, \<open>nota\<close> or both included, in the same
  order, and the same counter. This holds for \<open>_load\<close> in the running process and for
  a new \<open>DataStore()\<close> started on the file.
\<close>

theorem save_load_roundtrip:
  assumes "chaves_distintas (db w)"
  shows "load_store (dump_store (db w)) = Inr (db w) \<and>
         load (save w) = Inr (save w) \<and>
         init (data_file (save w))
           = Inr \<lparr>db = db w, data_file = data_file (save w), n_writes = 0\<rparr>"
  using load_store_dump_store [OF assms]
  by (simp add: load_def init_def save_def)

theorem save_load_roundtrip_witness:
  "chaves_distintas (db ex_world) \<and>
   load (save ex_world) = Inr (save ex_world) \<and>
   init (Some (dump_store ex_store))
     = Inr \<lparr>db = ex_store, data_file = Some (dump_store ex_store), n_writes = 0\<rparr>"
proof -
  have h: "chaves_distintas (db ex_world)"
    by (simp add: chaves_distintas_def ex_defs)
  have d: "data_file (save ex_world) = Some (dump_store ex_store)" "db ex_world = ex_store"
    by (simp_all add: save_def ex_world_def)
  from save_load_roundtrip [OF h] h show ?thesis
    by (simp only: d)
qed

subsection \<open>The histogram of grades\<close>

lemma python_float_error: "python_float v = Inl e \<Longrightarrow> caught e \<or> e = OverflowError"
  by (cases v) (auto split: pyfloat.splits option.splits)

lemma fle_range:
  "fle (Fin 0) n \<Longrightarrow> fle n (Fin 10) \<Longrightarrow> \<exists>a. n = Fin a \<and> 0 \<le> a \<and> a \<le> 10"
  by (cases n) auto

lemma nota_valida_range: "nota_valida p = Some n \<Longrightarrow> \<exists>a. n = Fin a \<and> 0 \<le> a \<and> a \<le> 10"
  by (auto simp: nota_valida_def fle_range split: sum.splits if_splits)

lemma coletar_notas_validas:
  "\<forall>p \<in> set ps. python_float (payload_get p ''nota'') \<noteq> Inl OverflowError \<Longrightarrow>
   coletar_notas ps = Inr (List.map_filter nota_valida ps)"
proof (induction ps)
  case Nil
  then show ?case by (simp add: map_filter_simps)
next
  case (Cons p ps)
  then have ih: "coletar_notas ps = Inr (List.map_filter nota_valida ps)"
    and no: "python_float (payload_get p ''nota'') \<noteq> Inl OverflowError"
    by simp_all
  show ?case
  proof (cases "python_float (payload_get p ''nota'')")
    case (Inl e)
    with no python_float_error [OF Inl] have "caught e" by auto
    moreover from Inl have "nota_valida p = None" by (simp add: nota_valida_def)
    ultimately show ?thesis using Inl ih
      by (simp add: Let_def map_filter_simps)
  next
    case (Inr n)
    then have "payload_get p ''nota'' \<noteq> JNull" by auto
    moreover from Inr have "nota_valida p
        = (if fle (Fin 0) n \<and> fle n (Fin 10) then Some n else None)"
      by (simp add: nota_valida_def)
    ultimately show ?thesis using Inr ih
      by (simp add: Let_def map_filter_simps)
  qed
qed

lemma dict_set_as_map:
  "distinct (map fst b) \<Longrightarrow> dict_get b k = Some c \<Longrightarrow>
   dict_set b k v = map (\<lambda>(k', c'). if k' = k then (k', v) else (k', c')) b"
proof (induction b)
  case Nil
  then show ?case by (simp add: dict_get_def)
next
  case (Cons x b)
  obtain k0 c0 where x: "x = (k0, c0)" by (cases x)
  show ?case
  proof (cases "k0 = k")
    case True
    with Cons.prems x have "k \<notin> fst ` set b" by auto
    then have "map (\<lambda>(k', c'). if k' = k then (k', v) else (k', c')) b = b"
      by (intro map_idI) (auto simp: image_iff)
    with True x show ?thesis by simp
  next
    case False
    with Cons x show ?thesis by (simp add: dict_get_def)
  qed
qed

lemma contar_tally:
  assumes "distinct (map fst b)" and "\<forall>k. 0 \<le> k \<and> k \<le> 10 \<longrightarrow> has_key b k"
    and "\<forall>n \<in> set ns. \<exists>a. n = Fin a"
  shows "contar b ns =
           Inr (map (\<lambda>(k, c). (k, c + int (length (filter (\<lambda>n. balde n = k) ns)))) b)"
  using assms
proof (induction ns arbitrary: b)
  case Nil
  then show ?case by simp
next
  case (Cons n ns)
  from Cons.prems(3) obtain a where n: "n = Fin a" by auto
  let ?k = "balde n"
  have k: "0 \<le> ?k \<and> ?k \<le> 10" by (simp add: n)
  with Cons.prems(2) have "has_key b ?k" by blast
  then obtain c where c: "dict_get b ?k = Some c" by (auto simp: has_key_iff)
  let ?b = "dict_set b ?k (c + 1)"
  have bm: "?b = map (\<lambda>(k', c'). if k' = ?k then (k', c + 1) else (k', c')) b"
    by (rule dict_set_as_map [OF Cons.prems(1) c])
  have d: "distinct (map fst ?b)" by (rule distinct_dict_set [OF Cons.prems(1)])
  have h: "\<forall>k. 0 \<le> k \<and> k \<le> 10 \<longrightarrow> has_key ?b k"
    using Cons.prems(2) by (simp add: has_key_def keys_dict_set)
  from Cons.prems(3) have f: "\<forall>n \<in> set ns. \<exists>a. n = Fin a" by simp
  have kk: "min (max (rhe a) 0) 10 = balde n" by (simp add: n min.commute max.commute)
  have "contar b (n # ns) = contar ?b ns"
    using c by (simp add: n kk [unfolded n])
  also have "\<dots> = Inr (map (\<lambda>(k, c). (k, c + int (length (filter (\<lambda>n. balde n = k) ns)))) ?b)"
    by (rule Cons.IH [OF d h f])
  also have "map (\<lambda>(k, c). (k, c + int (length (filter (\<lambda>n. balde n = k) ns)))) ?b
           = map (\<lambda>(k, c). (k, c + int (length (filter (\<lambda>m. balde m = k) (n # ns))))) b"
  proof -
    have "\<And>k' c'. (k', c') \<in> set b \<Longrightarrow> k' = ?k \<Longrightarrow> c' = c"
      using c Cons.prems(1) by (auto simp: dict_get_def)
    then show ?thesis
      unfolding bm by (auto simp: split_beta)
  qed
  finally show ?case .
qed

lemma in_map_filter: "y \<in> set (List.map_filter f xs) \<Longrightarrow> \<exists>x \<in> set xs. f x = Some y"
  by (auto simp: List.map_filter_def)

lemma notas_validas_finitas:
  assumes "n \<in> set (notas_validas atv)"
  shows "\<exists>a. n = Fin a \<and> 0 \<le> a \<and> a \<le> 10"
proof -
  from assms obtain p where "nota_valida p = Some n"
    unfolding notas_validas_def by (auto dest: in_map_filter)
  then show ?thesis by (rule nota_valida_range)
qed

lemma balde_nearest:
  assumes "0 \<le> a" and "a \<le> 10"
  shows "balde (Fin a) = rhe a \<and> \<bar>of_int (balde (Fin a)) - a\<bar> \<le> 1 / 2"
proof -
  from rhe_range [OF assms] have "balde (Fin a) = rhe a" by simp
  with rhe_nearest [of a] show ?thesis by simp
qed

lemma buckets_iniciais:
  "distinct (map fst (map (\<lambda>i. (i, 0::int)) [0..10]))"
  "\<forall>k. 0 \<le> k \<and> k \<le> 10 \<longrightarrow> has_key (map (\<lambda>i. (i, 0::int)) [0..10]) k"
  by (simp_all add: has_key_def comp_def)

lemma contar_inicial:
  assumes "\<forall>n \<in> set ns. \<exists>a. n = Fin a"
  shows "contar (map (\<lambda>i. (i, 0)) [0..10]) ns
          = Inr (map (\<lambda>k. (k, int (length (filter (\<lambda>n. balde n = k) ns)))) [0..10])"
proof -
  have "contar (map (\<lambda>i. (i, 0)) [0..10]) ns
          = Inr (map (\<lambda>(k, c). (k, c + int (length (filter (\<lambda>n. balde n = k) ns))))
                     (map (\<lambda>i. (i, 0)) [0..10]))"
    by (rule contar_tally [OF buckets_iniciais assms])
  also have "map (\<lambda>(k, c). (k, c + int (length (filter (\<lambda>n. balde n = k) ns))))
                     (map (\<lambda>i. (i, 0)) [0..10])
           = map (\<lambda>k. (k, int (length (filter (\<lambda>n. balde n = k) ns)))) [0..10]"
    unfolding map_map by (rule map_cong) simp_all
  finally show ?thesis .
qed

text \<open>
  C8, as amended. For an existing assignment none of whose grades is an integer too
  large for a float: when it has no valid grade, \<open>distribuicao_notas\<close> answers
  \<open>"Sem notas registradas."\<close> and gives no histogram; when it has one, the answer is
  the histogram with the eleven buckets \<open>0\<close> to \<open>10\<close> in order, whose count for \<open>k\<close>
  is the number of valid grades with bucket \<open>k\<close>, empty buckets included. Every valid
  grade is a finite float in \<open>[0, 10]\<close>, and its bucket is the result of \<open>round\<close>,
  at distance at most one half from it (so the clamp changes nothing).
\<close>

theorem distribuicao_notas_histograma:
  assumes "get_atividade s i = Some atv"
    and "\<forall>p \<in> set (map snd (entregas atv)). python_float (payload_get p ''nota'') \<noteq> Inl OverflowError"
  shows "distribuicao_notas s i =
           (if notas_validas atv = [] then Inr (Mensagem i ''Sem notas registradas.'')
            else Inr (Distribuicao i
                        (map (\<lambda>k. (k, int (length (filter (\<lambda>n. balde n = k) (notas_validas atv)))))
                             [0..10]))) \<and>
         (\<forall>n \<in> set (notas_validas atv).
            \<exists>a. n = Fin a \<and> 0 \<le> a \<and> a \<le> 10 \<and> balde n = rhe a \<and>
                \<bar>of_int (balde n) - a\<bar> \<le> 1 / 2)"
proof
  have c: "coletar_notas_da_atividade atv = Inr (notas_validas atv)"
    using coletar_notas_validas [OF assms(2)]
    by (simp add: coletar_notas_da_atividade_def notas_validas_def)
  have f: "\<forall>n \<in> set (notas_validas atv). \<exists>a. n = Fin a"
  proof
    fix n assume "n \<in> set (notas_validas atv)"
    from notas_validas_finitas [OF this] obtain a where "n = Fin a" by (elim exE conjE)
    then show "\<exists>a. n = Fin a" ..
  qed
  note t = contar_inicial [OF f]
  show "distribuicao_notas s i =
           (if notas_validas atv = [] then Inr (Mensagem i ''Sem notas registradas.'')
            else Inr (Distribuicao i
                        (map (\<lambda>k. (k, int (length (filter (\<lambda>n. balde n = k) (notas_validas atv)))))
                             [0..10])))"
    unfolding distribuicao_notas_def
    by (simp only: assms(1) option.case c bind_err_simps t)
  show "\<forall>n \<in> set (notas_validas atv).
            \<exists>a. n = Fin a \<and> 0 \<le> a \<and> a \<le> 10 \<and> balde n = rhe a \<and>
                \<bar>of_int (balde n) - a\<bar> \<le> 1 / 2"
  proof
    fix n assume "n \<in> set (notas_validas atv)"
    from notas_validas_finitas [OF this] obtain a where a: "n = Fin a" "0 \<le> a" "a \<le> 10"
      by (elim exE conjE)
    note b = balde_nearest [OF a(2,3), THEN conjunct1] balde_nearest [OF a(2,3), THEN conjunct2]
    from a b
    have "n = Fin a \<and> 0 \<le> a \<and> a \<le> 10 \<and> balde n = rhe a \<and> \<bar>of_int (balde n) - a\<bar> \<le> 1 / 2"
      by (simp del: balde.simps)
    then show "\<exists>a. n = Fin a \<and> 0 \<le> a \<and> a \<le> 10 \<and> balde n = rhe a \<and>
                \<bar>of_int (balde n) - a\<bar> \<le> 1 / 2" ..
  qed
qed

text \<open>
  C8, as stated, fails on an assignment without a valid grade: assignment 2 of the
  example has one submission, without grade, and the answer has no bucket.
\<close>

theorem distribuicao_notas_sem_notas_counterexample:
  "get_atividade ex_store 2 =
     Some \<lparr>id_a = 2, turma_codigo = ''T0'', titulo = ''Atv 2'', data_entrega = ''2025-12-05'',
           entregas = [(''RA1'', [(''arquivo'', JStr ''b1.pdf'')])]\<rparr> \<and>
   distribuicao_notas ex_store 2 = Inr (Mensagem 2 ''Sem notas registradas.'')"
  by (simp add: distribuicao_notas_def get_atividade_def dict_get_def ex_store_def
        coletar_notas_da_atividade_def payload_get_def Let_def)

lemma balde_exemplos:
  "balde (Fin (4165829655317709 / 562949953421312)) = 7 \<and>
   balde (Fin (4278419646001971 / 562949953421312)) = 8 \<and>
   balde (Fin 10) = 10"
  by code_simp

theorem distribuicao_notas_histograma_witness:
  "distribuicao_notas ex_store 1 =
     Inr (Distribuicao 1 [(0, 0), (1, 0), (2, 0), (3, 0), (4, 0), (5, 0), (6, 0),
                          (7, 1), (8, 1), (9, 0), (10, 1)])"
proof -
  let ?atv = "\<lparr>id_a = 1, turma_codigo = ''T1'', titulo = ''Atv 1'', data_entrega = ''2025-11-30'',
              entregas =
                [(''RA1'', [(''arquivo'', JStr ''a1.pdf''),
                            (''nota'', JFloat (Fin (4165829655317709 / 562949953421312)))]),
                 (''RA2'', [(''arquivo'', JStr ''a2.pdf''),
                            (''nota'', JFloat (Fin (4278419646001971 / 562949953421312)))]),
                 (''RA3'', [(''nota'', JFloat (Fin 10))])]\<rparr>"
  have h: "get_atividade ex_store 1 = Some ?atv"
    by (simp add: get_atividade_def dict_get_def ex_store_def)
  have o: "\<forall>p \<in> set (map snd (entregas ?atv)).
             python_float (payload_get p ''nota'') \<noteq> Inl OverflowError"
    by (simp add: payload_get_def dict_get_def)
  have nv: "notas_validas ?atv = [Fin (4165829655317709 / 562949953421312),
                                  Fin (4278419646001971 / 562949953421312), Fin 10]"
    by (simp add: notas_validas_def nota_valida_def payload_get_def dict_get_def)
  have u: "[0..10] = [0, 1, 2, 3, 4, 5, 6, 7, 8, 9, (10::int)]"
    by (simp add: upto_rec1)
  from distribuicao_notas_histograma [OF h o, THEN conjunct1] show ?thesis
    unfolding nv u by (simp add: balde_exemplos del: balde.simps)
qed

subsection \<open>Pending grades\<close>

text \<open>
  What \<open>pendencias_nota\<close> does: a member of the class is listed for an assignment
  exactly when the key \<open>nota\<close> of the member's submission is missing or \<open>None\<close>, the
  submission itself being missing included; an unknown class raises
  \<open>ValueError("Turma nao encontrada.")\<close>.
\<close>

lemma sem_nota_iff:
  "r \<in> set (sem_nota t atv) \<longleftrightarrow> r \<in> set (alunos_t t) \<and> campo_entrega atv r ''nota'' = JNull"
  by (auto simp: sem_nota_def campo_entrega_def split: option.splits)

lemma pendencias_nota_sem_turma:
  "get_turma s c = None \<Longrightarrow> pendencias_nota s c = Inl (ValueError ''Turma nao encontrada.'')"
  by (simp add: pendencias_nota_def)

text \<open>
  A stored grade can be NaN without any edit of the file: \<open>set_nota_entrega\<close>
  accepts NaN, for which neither \<open>n < 0\<close> nor \<open>n > 10\<close> holds.
\<close>

lemma set_nota_entrega_aceita_nan:
  assumes "get_atividade (db w) i = Some atv" and "has_key (alunos (db w)) r"
  shows "\<not> isl (snd (set_nota_entrega w i r (JFloat NaN))) \<and>
         campo_entrega (projr (snd (set_nota_entrega w i r (JFloat NaN)))) r ''nota'' = JFloat NaN"
  using assms by (simp add: set_nota_entrega_def Let_def campo_entrega_set)

text \<open>
  C2. The comment in the source reads "Considera sem nota se nao for numero valido",
  and the claim asks for every member whose submission has no valid numeric grade.
  The code tests \<open>nota is None\<close> only: in the example \<open>RA3\<close>, whose grade is the string
  \<open>abc\<close>, and \<open>RA4\<close>, whose grade is NaN, have no valid grade, yet neither is listed.
\<close>

theorem pendencias_nota_nota_invalida:
  "pendencias_nota ex_pendencias ''T1'' = Inr [(1, [''RA1'', ''RA2''])] \<and>
   campo_entrega (the (get_atividade ex_pendencias 1)) ''RA3'' ''nota'' = JStr ''abc'' \<and>
   nota_valida [(''arquivo'', JStr ''a3.pdf''), (''nota'', JStr ''abc'')] = None \<and>
   campo_entrega (the (get_atividade ex_pendencias 1)) ''RA4'' ''nota'' = JFloat NaN \<and>
   nota_valida [(''arquivo'', JStr ''a4.pdf''), (''nota'', JFloat NaN)] = None"
proof -
  have f: "python_float (JStr ''abc'') = Inl (ValueError ''could not convert string to float'')"
    by code_simp
  have 1: "pendencias_nota ex_pendencias ''T1'' = Inr [(1, [''RA1'', ''RA2''])]"
    by (simp add: pendencias_nota_def get_turma_def dict_get_def ex_pendencias_def
          atividades_da_turma_def sem_nota_def payload_get_def)
  have 2: "campo_entrega (the (get_atividade ex_pendencias 1)) ''RA3'' ''nota'' = JStr ''abc''"
    "campo_entrega (the (get_atividade ex_pendencias 1)) ''RA4'' ''nota'' = JFloat NaN"
    by (simp_all add: campo_entrega_def get_atividade_def dict_get_def ex_pendencias_def
          payload_get_def)
  have 3: "nota_valida [(''arquivo'', JStr ''a3.pdf''), (''nota'', JStr ''abc'')] = None"
    by (simp add: nota_valida_def payload_get_def dict_get_def f del: python_float.simps)
  have 4: "nota_valida [(''arquivo'', JStr ''a4.pdf''), (''nota'', JFloat NaN)] = None"
    by (simp add: nota_valida_def payload_get_def dict_get_def)
  from 1 2 3 4 show ?thesis by simp
qed


subsection \<open>Setting the grades of a student\<close>

text \<open>
  What \<open>_val\<close> does: an absent value passes; a value that \<open>float\<close> rejects gives the
  error "invalida" of the field; a value with \<open>n < 0\<close> or \<open>n > 10\<close> gives the error
  "deve estar entre 0 e 10" of the field. For every float but NaN, passing the two
  comparisons is the same as lying in \<open>[0, 10]\<close>.
\<close>

lemma val_iff:
  "val v nm = Inr () \<longleftrightarrow>
     v = JNull \<or> (\<exists>x. python_float v = Inr x \<and> \<not> flt x (Fin 0) \<and> \<not> flt (Fin 10) x)"
  by (auto simp: val_def split: sum.splits)

lemma val_erro:
  "val v nm = Inl e \<longleftrightarrow>
     v \<noteq> JNull \<and>
     ((\<exists>e'. python_float v = Inl e') \<and> e = ValueError (nm @ '' invalida.'') \<or>
      (\<exists>x. python_float v = Inr x \<and> (flt x (Fin 0) \<or> flt (Fin 10) x)) \<and>
        e = ValueError (nm @ '' deve estar entre 0 e 10.''))"
  by (auto simp: val_def split: sum.splits)

lemma faixa_iff:
  "x \<noteq> NaN \<Longrightarrow> (\<not> flt x (Fin 0) \<and> \<not> flt (Fin 10) x) \<longleftrightarrow> (fle (Fin 0) x \<and> fle x (Fin 10))"
  by (cases x) auto

lemma faixa_nan: "\<not> flt NaN (Fin 0) \<and> \<not> flt (Fin 10) NaN \<and> \<not> (fle (Fin 0) NaN \<and> fle NaN (Fin 10))"
  by simp

lemma val_JNull: "val JNull nm = Inr ()"
  by (simp add: val_def)

lemma val_limites:
  "val (JFloat (Fin (21 / 2))) nm = Inl (ValueError (nm @ '' deve estar entre 0 e 10.''))"
  "val (JFloat (Fin (- 1))) nm = Inl (ValueError (nm @ '' deve estar entre 0 e 10.''))"
  "val (JFloat (Fin 0)) nm = Inr ()"
  "val (JFloat (Fin 10)) nm = Inr ()"
  by (simp_all add: val_def)

text \<open>
  \<open>set_notas\<close> for an existing student: when the three checks pass, each provided
  field is assigned, each omitted field is left as it was, the state is saved and the
  view of \<open>get_notas\<close> returned; otherwise the error is that of the first field, in
  the order NP1, NP2, PIM, that fails its check.
\<close>

lemma set_notas_ok:
  assumes "dict_get (alunos (db w)) r = Some aluno"
    and "val v1 ''NP1'' = Inr ()" and "val v2 ''NP2'' = Inr ()" and "val v3 ''PIM'' = Inr ()"
  shows "set_notas w r v1 v2 v3 =
           (let novo = aluno\<lparr>np1 := (if v1 = JNull then np1 aluno else Some (projr (python_float v1))),
                             np2 := (if v2 = JNull then np2 aluno else Some (projr (python_float v2))),
                             pim := (if v3 = JNull then pim aluno else Some (projr (python_float v3)))\<rparr>;
                w' = save (put_aluno w r novo)
            in (w', Inr (get_notas (db w') r)))"
proof -
  have s: "\<And>v nm upd a. val v nm = Inr () \<Longrightarrow>
             set_field v upd a = Inr (if v = JNull then a else upd (Some (projr (python_float v))) a)"
    by (auto simp: set_field_def val_iff)
  show ?thesis
    using assms by (simp add: set_notas_def s Let_def)
qed

lemma set_notas_erro:
  assumes "dict_get (alunos (db w)) r = Some aluno"
  shows "set_notas w r v1 v2 v3 =
           (case val v1 ''NP1'' of Inl e \<Rightarrow> (w, Inl e) | Inr _ \<Rightarrow>
            (case val v2 ''NP2'' of Inl e \<Rightarrow> (w, Inl e) | Inr _ \<Rightarrow>
             (case val v3 ''PIM'' of Inl e \<Rightarrow> (w, Inl e) | Inr _ \<Rightarrow> set_notas w r v1 v2 v3)))"
  using assms by (simp add: set_notas_def split: sum.splits)

text \<open>
  So, NaN apart, \<open>set_notas\<close> for an existing student raises exactly when some
  provided value is one that \<open>float\<close> rejects or that lies outside \<open>[0, 10]\<close>.
\<close>

lemma val_falha_iff:
  assumes "python_float v \<noteq> Inr NaN"
  shows "(\<exists>e. val v nm = Inl e) \<longleftrightarrow>
         v \<noteq> JNull \<and> (\<forall>x. python_float v = Inr x \<longrightarrow> \<not> (fle (Fin 0) x \<and> fle x (Fin 10)))"
proof (cases "python_float v")
  case (Inl e)
  then show ?thesis by (simp add: val_def)
next
  case (Inr x)
  with assms have "x \<noteq> NaN" by auto
  from faixa_iff [OF this] Inr show ?thesis by (auto simp: val_def)
qed

lemma set_notas_falha_iff:
  assumes "dict_get (alunos (db w)) r = Some aluno"
    and "python_float v1 \<noteq> Inr NaN" and "python_float v2 \<noteq> Inr NaN"
    and "python_float v3 \<noteq> Inr NaN"
  shows "(\<exists>e. snd (set_notas w r v1 v2 v3) = Inl e) \<longleftrightarrow>
         (\<exists>v \<in> {v1, v2, v3}. v \<noteq> JNull \<and>
            (\<forall>x. python_float v = Inr x \<longrightarrow> \<not> (fle (Fin 0) x \<and> fle x (Fin 10))))"
proof (cases "val v1 ''NP1'' = Inr () \<and> val v2 ''NP2'' = Inr () \<and> val v3 ''PIM'' = Inr ()")
  case True
  with set_notas_ok [OF assms(1)] have "\<not> (\<exists>e. snd (set_notas w r v1 v2 v3) = Inl e)"
    by (simp add: Let_def)
  moreover from True val_falha_iff [OF assms(2), of "''NP1''"]
    val_falha_iff [OF assms(3), of "''NP2''"] val_falha_iff [OF assms(4), of "''PIM''"]
  have "\<not> (\<exists>v \<in> {v1, v2, v3}. v \<noteq> JNull \<and>
            (\<forall>x. python_float v = Inr x \<longrightarrow> \<not> (fle (Fin 0) x \<and> fle x (Fin 10))))"
    by auto
  ultimately show ?thesis by simp
next
  case False
  then have f: "(\<exists>e. val v1 ''NP1'' = Inl e) \<or> (\<exists>e. val v2 ''NP2'' = Inl e)
                \<or> (\<exists>e. val v3 ''PIM'' = Inl e)"
  proof -
    have c: "\<And>v nm. val v nm = Inr () \<or> (\<exists>e. val v nm = Inl e)"
    proof -
      fix v nm show "val v nm = Inr () \<or> (\<exists>e. val v nm = Inl e)"
        by (cases "val v nm") simp_all
    qed
    from False c [of v1 "''NP1''"] c [of v2 "''NP2''"] c [of v3 "''PIM''"] show ?thesis
      by blast
  qed
  have "\<exists>e. snd (set_notas w r v1 v2 v3) = Inl e"
  proof (cases "val v1 ''NP1''")
    case (Inl e)
    with assms(1) show ?thesis by (simp add: set_notas_def)
  next
    case 1: (Inr u1)
    show ?thesis
    proof (cases "val v2 ''NP2''")
      case (Inl e)
      with assms(1) 1 show ?thesis by (simp add: set_notas_def)
    next
      case 2: (Inr u2)
      with f 1 obtain e where "val v3 ''PIM'' = Inl e" by auto
      with assms(1) 1 2 show ?thesis by (simp add: set_notas_def)
    qed
  qed
  moreover from f val_falha_iff [OF assms(2), of "''NP1''"]
    val_falha_iff [OF assms(3), of "''NP2''"] val_falha_iff [OF assms(4), of "''PIM''"]
  have "\<exists>v \<in> {v1, v2, v3}. v \<noteq> JNull \<and>
            (\<forall>x. python_float v = Inr x \<longrightarrow> \<not> (fle (Fin 0) x \<and> fle x (Fin 10)))"
    by auto
  ultimately show ?thesis by simp
qed

text \<open>
  C6. The claim has every value outside \<open>[0, 10]\<close> refused. NaN is a float outside
  \<open>[0, 10]\<close> for which both \<open>n < 0\<close> and \<open>n > 10\<close> are false: \<open>set_notas\<close> with the
  string \<open>nan\<close>, which \<open>float\<close> converts to NaN, passes the check, stores NaN as
  \<open>np1\<close> and saves it.
\<close>

theorem set_notas_aceita_nan:
  "val (JStr ''nan'') ''NP1'' = Inr () \<and>
   snd (set_notas ex_world ''RA1'' (JStr ''nan'') JNull JNull) =
     Inr (Some \<lparr>np1_v = Some NaN, np2_v = Some (Fin 6), pim_v = Some (Fin 10),
                media = Some NaN, situacao = ''Reprovado''\<rparr>) \<and>
   get_aluno (db (fst (set_notas ex_world ''RA1'' (JStr ''nan'') JNull JNull))) ''RA1'' =
     Some \<lparr>nome = ''Ana'', ra = ''RA1'', curso = ''ADS'',
           np1 = Some NaN, np2 = Some (Fin 6), pim = Some (Fin 10)\<rparr> \<and>
   \<not> (fle (Fin 0) NaN \<and> fle NaN (Fin 10))"
proof -
  have f: "python_float (JStr ''nan'') = Inr NaN" by code_simp
  have v: "val (JStr ''nan'') ''NP1'' = Inr ()"
    by (simp add: val_def f del: python_float.simps)
  have s: "set_notas ex_world ''RA1'' (JStr ''nan'') JNull JNull =
     (save (put_aluno ex_world ''RA1'' \<lparr>nome = ''Ana'', ra = ''RA1'', curso = ''ADS'',
           np1 = Some NaN, np2 = Some (Fin 6), pim = Some (Fin 10)\<rparr>),
      Inr (Some \<lparr>np1_v = Some NaN, np2_v = Some (Fin 6), pim_v = Some (Fin 10),
                media = Some NaN, situacao = ''Reprovado''\<rparr>))"
    by (simp add: set_notas_def v val_JNull set_field_def f dict_get_def ex_defs get_notas_def
          put_aluno_def save_def Let_def del: python_float.simps)
  from v s show ?thesis
    by (simp add: get_aluno_def put_aluno_def save_def dict_get_def ex_defs)
qed

end
